theory Spec2Isabelle
  imports Complex_Main "HOL-Library.Monad_Syntax" "HOL-Library.Sublist" "HOL-Library.AList"
begin

section \<open>Python values\<close>

text \<open>
  Python integers are unbounded: \<^typ>\<open>int\<close>. A dictionary literal is an association list
  read with \<^const>\<open>map_of\<close>. A call that can raise returns an option: \<open>None\<close> is the
  raised exception, whatever its class (the callers here only ever catch \<open>Exception\<close>).
\<close>

definition dict_get :: "('k \<times> 'v) list \<Rightarrow> 'k \<Rightarrow> 'v \<Rightarrow> 'v" where
  \<comment> \<open>\<open>d.get(k, default)\<close>\<close>
  "dict_get d k dflt = (case map_of d k of Some v \<Rightarrow> v | None \<Rightarrow> dflt)"

definition dict_item :: "('k \<times> 'v) list \<Rightarrow> 'k \<Rightarrow> 'v option" where
  \<comment> \<open>\<open>d[k]\<close>, a KeyError when the key is absent\<close>
  "dict_item d k = map_of d k"

definition list_item :: "'a list \<Rightarrow> nat \<Rightarrow> 'a option" where
  \<comment> \<open>\<open>xs[i]\<close> for a literal index \<open>i \<ge> 0\<close>, an IndexError when out of range\<close>
  "list_item xs i = (if i < length xs then Some (xs ! i) else None)"

section \<open>sprite\_generator.py: configuration and registries\<close>

record SpriteConfig =
  width :: int
  height :: int
  enhanced_width :: int
  enhanced_height :: int
  frames_per_animation :: int
  palette_name :: string
  use_dithering :: bool
  archetype :: string

definition default_config :: SpriteConfig where
  \<comment> \<open>the field defaults of the NamedTuple\<close>
  "default_config = \<lparr>width = 64, height = 96, enhanced_width = 256, enhanced_height = 384,
     frames_per_animation = 1, palette_name = ''default'', use_dithering = False,
     archetype = ''balanced''\<rparr>"

type_synonym color = "int \<times> int \<times> int"
type_synonym palette = "(string \<times> color list) list"

definition PALETTES :: "(string \<times> palette) list" where
  "PALETTES = [
    (''default'', [
      (''skin'', [(255, 220, 177), (235, 200, 157), (215, 180, 137)]),
      (''hair'', [(139, 69, 19), (160, 82, 45), (101, 67, 33)]),
      (''gi_primary'', [(255, 255, 255), (240, 240, 240), (220, 220, 220)]),
      (''gi_secondary'', [(220, 20, 60), (200, 20, 40), (180, 20, 20)]),
      (''belt'', [(139, 69, 19), (101, 67, 33), (83, 53, 19)]),
      (''eyes'', [(0, 100, 200), (0, 80, 180), (0, 60, 160)]),
      (''outline'', [(0, 0, 0), (32, 32, 32), (64, 64, 64)])]),
    (''ryu'', [
      (''skin'', [(255, 220, 177), (235, 200, 157), (215, 180, 137)]),
      (''hair'', [(139, 69, 19), (160, 82, 45), (101, 67, 33)]),
      (''gi_primary'', [(255, 255, 255), (240, 240, 240), (220, 220, 220)]),
      (''gi_secondary'', [(255, 255, 255), (240, 240, 240), (220, 220, 220)]),
      (''belt'', [(0, 0, 0), (32, 32, 32), (16, 16, 16)]),
      (''eyes'', [(101, 67, 33), (83, 53, 19), (65, 39, 15)]),
      (''outline'', [(0, 0, 0), (32, 32, 32), (64, 64, 64)])]),
    (''ken'', [
      (''skin'', [(255, 220, 177), (235, 200, 157), (215, 180, 137)]),
      (''hair'', [(255, 215, 0), (255, 193, 37), (255, 165, 0)]),
      (''gi_primary'', [(255, 0, 0), (220, 0, 0), (180, 0, 0)]),
      (''gi_secondary'', [(255, 255, 255), (240, 240, 240), (220, 220, 220)]),
      (''belt'', [(139, 69, 19), (101, 67, 33), (83, 53, 19)]),
      (''eyes'', [(0, 100, 200), (0, 80, 180), (0, 60, 160)]),
      (''outline'', [(0, 0, 0), (32, 32, 32), (64, 64, 64)])]),
    (''chun_li'', [
      (''skin'', [(255, 228, 196), (245, 218, 186), (225, 198, 166)]),
      (''hair'', [(139, 69, 19), (101, 67, 33), (83, 53, 19)]),
      (''gi_primary'', [(30, 144, 255), (0, 123, 255), (0, 100, 200)]),
      (''gi_secondary'', [(255, 215, 0), (255, 193, 37), (255, 165, 0)]),
      (''belt'', [(255, 215, 0), (255, 193, 37), (255, 165, 0)]),
      (''eyes'', [(101, 67, 33), (83, 53, 19), (65, 39, 15)]),
      (''outline'', [(0, 0, 0), (32, 32, 32), (64, 64, 64)])]),
    (''zangief'', [
      (''skin'', [(255, 220, 177), (235, 200, 157), (215, 180, 137)]),
      (''hair'', [(205, 92, 92), (178, 34, 34), (139, 0, 0)]),
      (''gi_primary'', [(255, 0, 0), (220, 0, 0), (180, 0, 0)]),
      (''gi_secondary'', [(255, 215, 0), (255, 193, 37), (255, 165, 0)]),
      (''belt'', [(255, 215, 0), (255, 193, 37), (255, 165, 0)]),
      (''eyes'', [(0, 100, 200), (0, 80, 180), (0, 60, 160)]),
      (''outline'', [(0, 0, 0), (32, 32, 32), (64, 64, 64)])]),
    (''sagat'', [
      (''skin'', [(210, 180, 140), (190, 160, 120), (170, 140, 100)]),
      (''hair'', [(0, 0, 0), (32, 32, 32), (16, 16, 16)]),
      (''gi_primary'', [(128, 0, 128), (106, 0, 106), (84, 0, 84)]),
      (''gi_secondary'', [(255, 215, 0), (255, 193, 37), (255, 165, 0)]),
      (''belt'', [(255, 215, 0), (255, 193, 37), (255, 165, 0)]),
      (''eyes'', [(255, 0, 0), (220, 0, 0), (180, 0, 0)]),
      (''outline'', [(0, 0, 0), (32, 32, 32), (64, 64, 64)])]),
    (''lei_wulong'', [
      (''skin'', [(255, 228, 196), (245, 218, 186), (225, 198, 166)]),
      (''hair'', [(0, 0, 0), (32, 32, 32), (16, 16, 16)]),
      (''gi_primary'', [(255, 255, 255), (240, 240, 240), (220, 220, 220)]),
      (''gi_secondary'', [(0, 0, 0), (32, 32, 32), (16, 16, 16)]),
      (''belt'', [(139, 69, 19), (101, 67, 33), (83, 53, 19)]),
      (''eyes'', [(101, 67, 33), (83, 53, 19), (65, 39, 15)]),
      (''outline'', [(0, 0, 0), (32, 32, 32), (64, 64, 64)])])]"

definition get_palette :: "string \<Rightarrow> palette option" where
  \<comment> \<open>\<open>cls.PALETTES.get(name, cls.PALETTES["default"])\<close>: the default is looked up first\<close>
  "get_palette name = do {
     dflt \<leftarrow> dict_item PALETTES ''default'';
     Some (dict_get PALETTES name dflt) }"

text \<open>
  The proportions of an archetype are floating-point literals; they are kept as the
  rationals the literals denote, and are only ever read through the environment's
  \<open>int(height * p)\<close> (see below).
\<close>

record proportions =
  head :: rat
  torso :: rat
  legs :: rat

record archetype_def =
  body_type :: string
  stance :: string
  proportions :: proportions
  muscle_definition :: string

definition ARCHETYPES :: "(string \<times> archetype_def) list" where
  "ARCHETYPES = [
    (''balanced'', \<lparr>body_type = ''medium'', stance = ''neutral'',
       proportions = \<lparr>head = 12/100, torso = 45/100, legs = 43/100\<rparr>,
       muscle_definition = ''medium''\<rparr>),
    (''rushdown'', \<lparr>body_type = ''lean'', stance = ''forward'',
       proportions = \<lparr>head = 11/100, torso = 44/100, legs = 45/100\<rparr>,
       muscle_definition = ''low''\<rparr>),
    (''grappler'', \<lparr>body_type = ''heavy'', stance = ''wide'',
       proportions = \<lparr>head = 10/100, torso = 50/100, legs = 40/100\<rparr>,
       muscle_definition = ''high''\<rparr>),
    (''zoner'', \<lparr>body_type = ''tall'', stance = ''defensive'',
       proportions = \<lparr>head = 13/100, torso = 42/100, legs = 45/100\<rparr>,
       muscle_definition = ''medium''\<rparr>),
    (''technical'', \<lparr>body_type = ''medium'', stance = ''precise'',
       proportions = \<lparr>head = 12/100, torso = 43/100, legs = 45/100\<rparr>,
       muscle_definition = ''medium''\<rparr>)]"

definition get_archetype :: "string \<Rightarrow> archetype_def option" where
  \<comment> \<open>\<open>cls.ARCHETYPES.get(name, cls.ARCHETYPES["balanced"])\<close>\<close>
  "get_archetype name = do {
     dflt \<leftarrow> dict_item ARCHETYPES ''balanced'';
     Some (dict_get ARCHETYPES name dflt) }"

section \<open>sprite\_generator.py: the pose model\<close>

definition offsets :: "int \<Rightarrow> (string \<times> int \<times> int) list" where
  \<comment> \<open>the dictionary \<open>offsets\<close> that \<open>_get_pose_offset\<close> builds from \<open>scale\<close>\<close>
  "offsets scale = [
     (''idle'', (0, 0)),
     (''walk'', (2 * scale, 0)),
     (''punch'', (3 * scale, - 2 * scale)),
     (''kick'', (1 * scale, - 1 * scale)),
     (''jump'', (0, - 8 * scale)),
     (''special'', (2 * scale, - 4 * scale))]"

definition get_pose_offset :: "string \<Rightarrow> int \<Rightarrow> int \<times> int" where
  "get_pose_offset pose scale = dict_get (offsets scale) pose (0, 0)"

definition leans :: "int \<Rightarrow> (string \<times> int) list" where
  \<comment> \<open>the dictionary \<open>leans\<close> that \<open>_get_body_lean\<close> builds from \<open>scale\<close>\<close>
  "leans scale = [
     (''idle'', 0),
     (''walk'', 1 * scale),
     (''punch'', 3 * scale),
     (''kick'', - 2 * scale),
     (''jump'', 0),
     (''special'', 2 * scale)]"

definition get_body_lean :: "string \<Rightarrow> int \<Rightarrow> int" where
  "get_body_lean pose scale = dict_get (leans scale) pose 0"

definition pose_vocabulary :: "string list" where
  \<comment> \<open>the poses named by the docstring of \<open>generate_character_sprite\<close> and by the
      default of \<open>--poses\<close> in \<open>main\<close>\<close>
  "pose_vocabulary = [''idle'', ''walk'', ''punch'', ''kick'', ''jump'', ''special'']"

section \<open>The imaging library and the environment\<close>

text \<open>
  Pillow is not part of the repository. An image is modelled by its mode, its size and the
  operations applied to it since it was created, in order; its pixels are a function of
  these. Whether a call into the library or the operating system raises is decided by the
  environment, and so is the value of \<open>int(h * p)\<close> for a float \<open>p\<close>
  (an OverflowError when it is \<open>None\<close>).
\<close>

datatype pil_op =
    Rectangle "int list" "color option" "color option"
  | Ellipse "int list" "color option" "color option"
  | Quantize nat string
  | Convert string

record image =
  img_mode :: string
  img_size :: "int \<times> int"
  img_ops :: "pil_op list"

type_synonym path = "string list"

datatype node = Directory | ImageFile image | OtherFile

text \<open>
  A save that raises may have opened the file already: what the path holds afterwards
  (what it held, a truncated file, nothing) is the environment's \<open>failed_save_leaves\<close>,
  given what the path held before.
\<close>

record env =
  new_raises :: "string \<Rightarrow> int \<times> int \<Rightarrow> bool"
  op_raises :: "pil_op \<Rightarrow> image \<Rightarrow> bool"
  int_of_product :: "int \<Rightarrow> rat \<Rightarrow> int option"
  save_raises :: "path \<Rightarrow> image \<Rightarrow> bool"
  failed_save_leaves :: "path \<Rightarrow> image \<Rightarrow> node option \<Rightarrow> node option"
  mkdir_raises :: "path \<Rightarrow> bool"

definition Image_new :: "env \<Rightarrow> string \<Rightarrow> int \<times> int \<Rightarrow> image option" where
  \<comment> \<open>\<open>Image.new(mode, size, (0, 0, 0, 0))\<close>: a transparent canvas\<close>
  "Image_new env mode sz =
     (if new_raises env mode sz then None
      else Some \<lparr>img_mode = mode, img_size = sz, img_ops = []\<rparr>)"

definition apply_op :: "env \<Rightarrow> pil_op \<Rightarrow> image \<Rightarrow> image option" where
  "apply_op env f img =
     (if op_raises env f img then None else Some (img\<lparr>img_ops := img_ops img @ [f]\<rparr>))"

definition rectangle :: "env \<Rightarrow> image \<Rightarrow> int list \<Rightarrow> color option \<Rightarrow> color option \<Rightarrow> image option" where
  \<comment> \<open>\<open>draw.rectangle(xy, fill=..., outline=...)\<close> on the image \<open>draw\<close> draws into\<close>
  "rectangle env draw xy fill outline = apply_op env (Rectangle xy fill outline) draw"

definition ellipse :: "env \<Rightarrow> image \<Rightarrow> int list \<Rightarrow> color option \<Rightarrow> color option \<Rightarrow> image option" where
  "ellipse env draw xy fill outline = apply_op env (Ellipse xy fill outline) draw"

definition quantize :: "env \<Rightarrow> image \<Rightarrow> nat \<Rightarrow> string \<Rightarrow> image option" where
  \<comment> \<open>\<open>image.quantize(colors=..., dither=...)\<close>: a palette image of the same size\<close>
  "quantize env img colors dither =
     map_option (\<lambda>i. i\<lparr>img_mode := ''P''\<rparr>) (apply_op env (Quantize colors dither) img)"

definition convert :: "env \<Rightarrow> image \<Rightarrow> string \<Rightarrow> image option" where
  \<comment> \<open>\<open>image.convert(mode)\<close>: an image of the same size in the given mode\<close>
  "convert env img mode =
     map_option (\<lambda>i. i\<lparr>img_mode := mode\<rparr>) (apply_op env (Convert mode) img)"

section \<open>sprite\_generator.py: the rasterizer\<close>

record SpriteGenerator =
  self_config :: SpriteConfig
  self_palette :: palette
  self_archetype :: archetype_def

definition SpriteGenerator_init :: "SpriteConfig \<Rightarrow> SpriteGenerator option" where
  "SpriteGenerator_init config = do {
     p \<leftarrow> get_palette (palette_name config);
     a \<leftarrow> get_archetype (archetype config);
     Some \<lparr>self_config = config, self_palette = p, self_archetype = a\<rparr> }"

definition draw_legs ::
  "env \<Rightarrow> image \<Rightarrow> palette \<Rightarrow> int \<Rightarrow> int \<Rightarrow> int \<Rightarrow> int \<Rightarrow> string \<Rightarrow> int \<Rightarrow> image option" where
  "draw_legs env draw palette center_x bottom_y width' height' pose scale =
     (let leg_colors = dict_get palette ''gi_primary'' [(255, 255, 255)];
          outline_colors = dict_get palette ''outline'' [(0, 0, 0)]
      in if pose = ''kick'' then
           (let leg1_x1 = center_x - width' div 4;
                leg1_x2 = center_x;
                leg1_y1 = bottom_y;
                leg1_y2 = bottom_y - height';
                leg2_x1 = center_x;
                leg2_x2 = center_x + width' div 2;
                leg2_y1 = bottom_y - height' div 3;
                leg2_y2 = bottom_y - height' div 2
            in do {
              f \<leftarrow> list_item leg_colors 0; l \<leftarrow> list_item outline_colors 0;
              draw \<leftarrow> rectangle env draw [leg1_x1, leg1_y2, leg1_x2, leg1_y1] (Some f) (Some l);
              f \<leftarrow> list_item leg_colors 0; l \<leftarrow> list_item outline_colors 0;
              rectangle env draw [leg2_x1, leg2_y2, leg2_x2, leg2_y1] (Some f) (Some l) })
         else if pose = ''jump'' then
           (let leg_width = width' div 3;
                leg_height = height' * 2 div 3
            in do {
              f \<leftarrow> list_item leg_colors 0; l \<leftarrow> list_item outline_colors 0;
              draw \<leftarrow> rectangle env draw
                [center_x - width' div 2, bottom_y - leg_height, center_x - width' div 4, bottom_y]
                (Some f) (Some l);
              f \<leftarrow> list_item leg_colors 0; l \<leftarrow> list_item outline_colors 0;
              rectangle env draw
                [center_x + width' div 4, bottom_y - leg_height, center_x + width' div 2, bottom_y]
                (Some f) (Some l) })
         else do {
              f \<leftarrow> list_item leg_colors 0; l \<leftarrow> list_item outline_colors 0;
              draw \<leftarrow> rectangle env draw
                [center_x - width' div 2, bottom_y - height', center_x - width' div 8, bottom_y]
                (Some f) (Some l);
              f \<leftarrow> list_item leg_colors 0; l \<leftarrow> list_item outline_colors 0;
              rectangle env draw
                [center_x + width' div 8, bottom_y - height', center_x + width' div 2, bottom_y]
                (Some f) (Some l) })"

definition draw_torso ::
  "env \<Rightarrow> SpriteGenerator \<Rightarrow> image \<Rightarrow> palette \<Rightarrow> int \<Rightarrow> int \<Rightarrow> int \<Rightarrow> int \<Rightarrow> string \<Rightarrow> int \<Rightarrow> image option" where
  "draw_torso env self draw palette center_x bottom_y width' height' pose scale =
     (let torso_colors = dict_get palette ''gi_primary'' [(255, 255, 255)];
          secondary_colors = dict_get palette ''gi_secondary'' [(220, 20, 60)];
          outline_colors = dict_get palette ''outline'' [(0, 0, 0)];
          torso_rect = [center_x - width' div 2, bottom_y - height',
                        center_x + width' div 2, bottom_y]
      in do {
        f \<leftarrow> list_item torso_colors 0; l \<leftarrow> list_item outline_colors 0;
        draw \<leftarrow> rectangle env draw torso_rect (Some f) (Some l);
        let belt_y = bottom_y - height' div 4;
        f \<leftarrow> list_item (dict_get palette ''belt'' [(139, 69, 19)]) 0;
        l \<leftarrow> list_item outline_colors 0;
        draw \<leftarrow> rectangle env draw
          [center_x - width' div 2, belt_y - 2 * scale, center_x + width' div 2, belt_y + 2 * scale]
          (Some f) (Some l);
        if muscle_definition (self_archetype self) = ''high'' then do {
          let chest_y = bottom_y - height' * 3 div 4;
          l \<leftarrow> (if length torso_colors > 1 then list_item torso_colors 1
                else list_item outline_colors 0);
          ellipse env draw
            [center_x - width' div 3, chest_y - 4 * scale, center_x + width' div 3, chest_y + 4 * scale]
            None (Some l) }
        else Some draw })"

definition draw_head ::
  "env \<Rightarrow> image \<Rightarrow> palette \<Rightarrow> int \<Rightarrow> int \<Rightarrow> int \<Rightarrow> int \<Rightarrow> string \<Rightarrow> int \<Rightarrow> image option" where
  "draw_head env draw palette center_x bottom_y width' height' pose scale =
     (let skin_colors = dict_get palette ''skin'' [(255, 220, 177)];
          hair_colors = dict_get palette ''hair'' [(139, 69, 19)];
          eye_colors = dict_get palette ''eyes'' [(0, 100, 200)];
          outline_colors = dict_get palette ''outline'' [(0, 0, 0)];
          head_rect = [center_x - width' div 2, bottom_y - height',
                       center_x + width' div 2, bottom_y]
      in do {
        f \<leftarrow> list_item skin_colors 0; l \<leftarrow> list_item outline_colors 0;
        draw \<leftarrow> ellipse env draw head_rect (Some f) (Some l);
        let hair_height = height' div 3;
        let hair_rect = [center_x - width' div 2, bottom_y - height',
                         center_x + width' div 2, bottom_y - height' + hair_height];
        f \<leftarrow> list_item hair_colors 0; l \<leftarrow> list_item outline_colors 0;
        draw \<leftarrow> ellipse env draw hair_rect (Some f) (Some l);
        let eye_y = bottom_y - height' * 2 div 3;
        let eye_size = 2 * scale;
        f \<leftarrow> list_item eye_colors 0;
        draw \<leftarrow> ellipse env draw
          [center_x - width' div 4 - eye_size div 2, eye_y - eye_size div 2,
           center_x - width' div 4 + eye_size div 2, eye_y + eye_size div 2]
          (Some f) None;
        f \<leftarrow> list_item eye_colors 0;
        ellipse env draw
          [center_x + width' div 4 - eye_size div 2, eye_y - eye_size div 2,
           center_x + width' div 4 + eye_size div 2, eye_y + eye_size div 2]
          (Some f) None })"

definition draw_arms ::
  "env \<Rightarrow> image \<Rightarrow> palette \<Rightarrow> int \<Rightarrow> int \<Rightarrow> string \<Rightarrow> int \<Rightarrow> int \<Rightarrow> int \<Rightarrow> image option" where
  "draw_arms env draw palette center_x center_y pose scale torso_width torso_height =
     (let arm_colors = dict_get palette ''gi_primary'' [(255, 255, 255)];
          skin_colors = dict_get palette ''skin'' [(255, 220, 177)];
          outline_colors = dict_get palette ''outline'' [(0, 0, 0)];
          arm_width = 4 * scale;
          arm_length = torso_height div 2
      in if pose = ''punch'' then do {
           f \<leftarrow> list_item arm_colors 0; l \<leftarrow> list_item outline_colors 0;
           draw \<leftarrow> rectangle env draw
             [center_x + torso_width div 2, center_y - arm_width div 2,
              center_x + torso_width div 2 + arm_length, center_y + arm_width div 2]
             (Some f) (Some l);
           f \<leftarrow> list_item skin_colors 0; l \<leftarrow> list_item outline_colors 0;
           draw \<leftarrow> ellipse env draw
             [center_x + torso_width div 2 + arm_length - 3 * scale, center_y - 3 * scale,
              center_x + torso_width div 2 + arm_length + 3 * scale, center_y + 3 * scale]
             (Some f) (Some l);
           f \<leftarrow> list_item arm_colors 0; l \<leftarrow> list_item outline_colors 0;
           rectangle env draw
             [center_x - torso_width div 2 - arm_length div 2, center_y - arm_width div 2,
              center_x - torso_width div 2, center_y + arm_width div 2]
             (Some f) (Some l) }
         else if pose = ''special'' then do {
           f \<leftarrow> list_item arm_colors 0; l \<leftarrow> list_item outline_colors 0;
           draw \<leftarrow> rectangle env draw
             [center_x - torso_width div 2 - arm_width div 2, center_y - arm_length,
              center_x - torso_width div 2 + arm_width div 2, center_y]
             (Some f) (Some l);
           f \<leftarrow> list_item arm_colors 0; l \<leftarrow> list_item outline_colors 0;
           rectangle env draw
             [center_x + torso_width div 2, center_y,
              center_x + torso_width div 2 + arm_length div 2, center_y + arm_length div 2]
             (Some f) (Some l) }
         else do {
           f \<leftarrow> list_item arm_colors 0; l \<leftarrow> list_item outline_colors 0;
           draw \<leftarrow> rectangle env draw
             [center_x - torso_width div 2 - arm_width, center_y - arm_width div 2,
              center_x - torso_width div 2, center_y + arm_length]
             (Some f) (Some l);
           f \<leftarrow> list_item arm_colors 0; l \<leftarrow> list_item outline_colors 0;
           rectangle env draw
             [center_x + torso_width div 2, center_y - arm_width div 2,
              center_x + torso_width div 2 + arm_width, center_y + arm_length]
             (Some f) (Some l) })"

definition draw_character ::
  "env \<Rightarrow> SpriteGenerator \<Rightarrow> image \<Rightarrow> palette \<Rightarrow> string \<Rightarrow> int \<Rightarrow> int \<Rightarrow> int \<Rightarrow> image option" where
  "draw_character env self draw palette pose width' height' scale = do {
     let center_x = width' div 2;
     let proportions = proportions (self_archetype self);
     head_height \<leftarrow> int_of_product env height' (head proportions);
     torso_height \<leftarrow> int_of_product env height' (torso proportions);
     legs_height \<leftarrow> int_of_product env height' (legs proportions);
     let pose_offset = get_pose_offset pose scale;
     let body_lean = get_body_lean pose scale;
     let current_y = height' - 5 * scale;
     let leg_width = (if body_type (self_archetype self) = ''heavy'' then 8 * scale else 6 * scale);
     draw \<leftarrow> draw_legs env draw palette (center_x + body_lean) current_y
               leg_width legs_height pose scale;
     let current_y = current_y - legs_height;
     let torso_width = (if body_type (self_archetype self) = ''heavy'' then 12 * scale else 10 * scale);
     draw \<leftarrow> draw_torso env self draw palette (center_x + body_lean) current_y
               torso_width torso_height pose scale;
     let current_y = current_y - torso_height;
     let head_width = 8 * scale;
     draw \<leftarrow> draw_head env draw palette (center_x + body_lean) current_y
               head_width head_height pose scale;
     draw_arms env draw palette (center_x + body_lean) (current_y + head_height div 2)
       pose scale torso_width torso_height }"

definition apply_dithering :: "env \<Rightarrow> image \<Rightarrow> image option" where
  "apply_dithering env image' = do {
     image' \<leftarrow> quantize env image' 16 ''FLOYDSTEINBERG'';
     convert env image' ''RGBA'' }"

definition generate_character_sprite ::
  "env \<Rightarrow> SpriteGenerator \<Rightarrow> string \<Rightarrow> string \<Rightarrow> bool \<Rightarrow> image option" where
  "generate_character_sprite env self character_id pose enhanced' = do {
     let (width', height', scale) =
       (if enhanced' then (enhanced_width (self_config self), enhanced_height (self_config self), 4)
        else (width (self_config self), height (self_config self), 1));
     sprite \<leftarrow> Image_new env ''RGBA'' (width', height');
     char_palette \<leftarrow> get_palette character_id;
     let char_palette = (if char_palette = [] then self_palette self else char_palette);
     sprite \<leftarrow> draw_character env self sprite char_palette pose width' height' scale;
     if use_dithering (self_config self) then apply_dithering env sprite else Some sprite }"

section \<open>The file system\<close>

text \<open>
  A path is the list of its components. The file system maps a path to what is stored
  there; an image file holds the image that was saved.
\<close>

type_synonym filesystem = "path \<Rightarrow> node option"

definition exists :: "filesystem \<Rightarrow> path \<Rightarrow> bool" where
  \<comment> \<open>\<open>path.exists()\<close>\<close>
  "exists fs p = (fs p \<noteq> None)"

definition Image_open :: "filesystem \<Rightarrow> path \<Rightarrow> image option" where
  \<comment> \<open>\<open>Image.open(path)\<close>: raises unless the path holds an image file\<close>
  "Image_open fs p = (case fs p of Some (ImageFile img) \<Rightarrow> Some img | _ \<Rightarrow> None)"

definition makedirs :: "filesystem \<Rightarrow> path \<Rightarrow> filesystem" where
  \<comment> \<open>the effect of \<open>os.makedirs(d, exist_ok=True)\<close> and of
      \<open>d.mkdir(parents=True, exist_ok=True)\<close> when they do not raise: every missing
      ancestor and \<open>d\<close> itself become directories\<close>
  "makedirs fs d = fold (\<lambda>q f. if f q = None then f(q \<mapsto> Directory) else f) (prefixes d) fs"

definition mkdir :: "env \<Rightarrow> filesystem \<Rightarrow> path \<Rightarrow> filesystem option" where
  "mkdir env fs d = (if mkdir_raises env d then None else Some (makedirs fs d))"

definition save_sprite :: "env \<Rightarrow> image \<Rightarrow> path \<Rightarrow> filesystem \<Rightarrow> bool \<times> filesystem" where
  \<comment> \<open>\<open>os.makedirs(os.path.dirname(output_path), exist_ok=True)\<close>, then
      \<open>sprite.save(output_path, "PNG", optimize=True)\<close>. The flag tells whether the call
      returned; the file system is the one it leaves behind either way. When the
      directory cannot be made nothing is written; when \<open>save\<close> raises, the path holds
      what the environment says an interrupted save leaves there.\<close>
  "save_sprite env sprite output_path fs =
     (case mkdir env fs (butlast output_path) of
        None \<Rightarrow> (False, fs)
      | Some fs' \<Rightarrow>
          if save_raises env output_path sprite
          then (False,
                fs'(output_path := failed_save_leaves env output_path sprite (fs' output_path)))
          else (True, fs'(output_path \<mapsto> ImageFile sprite)))"

section \<open>batch\_generator.py\<close>

definition asset_dir :: "path \<Rightarrow> path" where
  \<comment> \<open>\<open>self.project_root / "assets" / "sprites" / "street_fighter_6"\<close>\<close>
  "asset_dir project_root = project_root @ [''assets'', ''sprites'', ''street_fighter_6'']"

definition archetype_mapping :: "(string \<times> string) list" where
  \<comment> \<open>the dictionary of \<open>_get_character_archetype\<close>\<close>
  "archetype_mapping = [
     (''ryu'', ''balanced''),
     (''ken'', ''rushdown''),
     (''chun_li'', ''technical''),
     (''zangief'', ''grappler''),
     (''sagat'', ''zoner''),
     (''lei_wulong'', ''technical''),
     (''akuma'', ''technical''),
     (''cammy'', ''rushdown''),
     (''guile'', ''zoner''),
     (''dhalsim'', ''zoner''),
     (''blanka'', ''rushdown''),
     (''e_honda'', ''grappler'')]"

definition get_character_archetype :: "string \<Rightarrow> string" where
  "get_character_archetype character_id = dict_get archetype_mapping character_id ''balanced''"

definition pose_mapping :: "(string \<times> string) list" where
  \<comment> \<open>the dictionary of \<open>_map_pose_name\<close>\<close>
  "pose_mapping = [
     (''punch'', ''attack''),
     (''kick'', ''attack''),
     (''special'', ''attack'')]"

definition map_pose_name :: "string \<Rightarrow> string" where
  "map_pose_name pose = dict_get pose_mapping pose pose"

datatype batch_line =
    Processing string
  | Generated string
  | ErrorOriginal string
  | ErrorEnhanced string

record char_run =
  generated_paths :: "path list"
  files :: filesystem
  printed :: "batch_line list"

definition sprite_file_name :: "string \<Rightarrow> string \<Rightarrow> bool \<Rightarrow> string" where
  \<comment> \<open>\<open>f"{character_id}_{pose_name}.png"\<close> and \<open>f"{character_id}_{pose_name}_enhanced.png"\<close>\<close>
  "sprite_file_name character_id pose_name enhanced' =
     character_id @ ''_'' @ pose_name @ (if enhanced' then ''_enhanced.png'' else ''.png'')"

definition try_generate ::
  "env \<Rightarrow> SpriteGenerator \<Rightarrow> path \<Rightarrow> string \<Rightarrow> string \<Rightarrow> string \<Rightarrow> bool \<Rightarrow> char_run \<Rightarrow> char_run" where
  \<comment> \<open>one \<open>try\<close>/\<open>except Exception\<close> block of the loop body: the first with
      \<open>enhanced=False\<close>, the second with \<open>enhanced=True\<close>\<close>
  "try_generate env generator char_sprite_dir character_id pose pose_name enhanced' run =
     (let failed = (if enhanced' then ErrorEnhanced pose else ErrorOriginal pose)
      in case generate_character_sprite env generator character_id pose enhanced' of
           None \<Rightarrow> run\<lparr>printed := printed run @ [failed]\<rparr>
         | Some sprite \<Rightarrow>
             (let out_path = char_sprite_dir @ [sprite_file_name character_id pose_name enhanced'];
                  (returned, fs) = save_sprite env sprite out_path (files run)
              in if returned
                 then run\<lparr>generated_paths := generated_paths run @ [out_path], files := fs,
                          printed := printed run @ [Generated (last out_path)]\<rparr>
                 else run\<lparr>files := fs, printed := printed run @ [failed]\<rparr>))"

fun generate_poses ::
  "env \<Rightarrow> SpriteGenerator \<Rightarrow> path \<Rightarrow> string \<Rightarrow> string list \<Rightarrow> char_run \<Rightarrow> char_run" where
  \<comment> \<open>\<open>for pose in poses:\<close>\<close>
  "generate_poses env generator char_sprite_dir character_id [] run = run"
| "generate_poses env generator char_sprite_dir character_id (pose # poses) run =
     (let pose_name = map_pose_name pose;
          run = try_generate env generator char_sprite_dir character_id pose pose_name False run;
          run = try_generate env generator char_sprite_dir character_id pose pose_name True run
      in generate_poses env generator char_sprite_dir character_id poses run)"

definition generate_character_sprites ::
  "env \<Rightarrow> path \<Rightarrow> string \<Rightarrow> string list \<Rightarrow> SpriteConfig \<Rightarrow> filesystem \<Rightarrow> batch_line list
     \<Rightarrow> char_run option" where
  \<comment> \<open>\<open>None\<close>: an exception leaves the method (the directory could not be made)\<close>
  "generate_character_sprites env project_root character_id poses config fs out = do {
     generator \<leftarrow> SpriteGenerator_init config;
     let char_sprite_dir = asset_dir project_root @ [character_id, ''sprites''];
     fs \<leftarrow> mkdir env fs char_sprite_dir;
     Some (generate_poses env generator char_sprite_dir character_id poses
             \<lparr>generated_paths = [], files = fs, printed = out\<rparr>) }"

record batch_run =
  results :: "string \<Rightarrow> path list option"
  batch_files :: filesystem
  batch_printed :: "batch_line list"

definition char_config :: "SpriteConfig \<Rightarrow> string \<Rightarrow> SpriteConfig" where
  \<comment> \<open>the character-specific configuration built in the loop of
      \<open>generate_character_batch\<close>; \<open>frames_per_animation\<close> is not passed and takes
      its default\<close>
  "char_config config character_id =
     (let char_archetype = get_character_archetype character_id
      in \<lparr>width = width config, height = height config,
           enhanced_width = enhanced_width config, enhanced_height = enhanced_height config,
           frames_per_animation = 1, palette_name = character_id,
           use_dithering = use_dithering config, archetype = char_archetype\<rparr>)"

fun generate_characters ::
  "env \<Rightarrow> path \<Rightarrow> string list \<Rightarrow> string list \<Rightarrow> SpriteConfig \<Rightarrow> batch_run \<Rightarrow> batch_run option" where
  \<comment> \<open>\<open>for character_id in characters:\<close>\<close>
  "generate_characters env project_root [] poses config b = Some b"
| "generate_characters env project_root (character_id # characters) poses config b = do {
     run \<leftarrow> generate_character_sprites env project_root character_id poses
              (char_config config character_id)
              (batch_files b) (batch_printed b @ [Processing character_id]);
     generate_characters env project_root characters poses config
       \<lparr>results = (results b)(character_id \<mapsto> generated_paths run),
        batch_files = files run, batch_printed = printed run\<rparr> }"

definition generate_character_batch ::
  "env \<Rightarrow> path \<Rightarrow> string list \<Rightarrow> string list option \<Rightarrow> SpriteConfig option \<Rightarrow> filesystem
     \<Rightarrow> batch_run option" where
  "generate_character_batch env project_root characters poses config fs =
     (let poses = (case poses of None \<Rightarrow> [''idle'', ''walk'', ''attack'', ''jump''] | Some ps \<Rightarrow> ps);
          config = (case config of None \<Rightarrow> default_config | Some c \<Rightarrow> c)
      in generate_characters env project_root characters poses config
           \<lparr>results = Map.empty, batch_files = fs, batch_printed = []\<rparr>)"

section \<open>validate.py\<close>

datatype validation_line =
    Valid string string int int
  | SizeMismatch string string int int int int
  | FailedToValidate string
  | FileNotFound string

record char_results =
  n_original :: int
  n_enhanced :: int
  missing :: "string list"

record validation =
  total_sprites :: int
  loaded_sprites :: int
  enhanced_sprites :: int
  report :: "validation_line list"

definition smart_loading ::
  "filesystem \<Rightarrow> path \<Rightarrow> path \<Rightarrow> string \<Rightarrow> validation \<times> char_results
     \<Rightarrow> (path \<times> bool) option \<times> validation \<times> char_results" where
  \<comment> \<open>the \<open>if\<close>/\<open>elif\<close>/\<open>else\<close> under "Smart loading logic": the result is
      \<open>selected_path\<close> with \<open>is_enhanced\<close>, \<open>None\<close> when nothing is selected\<close>
  "smart_loading fs enhanced_path original_path pose = (\<lambda>(v, cr).
     if exists fs enhanced_path then
       (Some (enhanced_path, True),
        v\<lparr>loaded_sprites := loaded_sprites v + 1, enhanced_sprites := enhanced_sprites v + 1\<rparr>,
        cr\<lparr>n_enhanced := n_enhanced cr + 1\<rparr>)
     else if exists fs original_path then
       (Some (original_path, False),
        v\<lparr>loaded_sprites := loaded_sprites v + 1\<rparr>,
        cr\<lparr>n_original := n_original cr + 1\<rparr>)
     else (None, v, cr\<lparr>missing := missing cr @ [pose]\<rparr>))"

definition validate_selected ::
  "filesystem \<Rightarrow> string \<Rightarrow> (path \<times> bool) option \<Rightarrow> validation_line" where
  \<comment> \<open>the \<open>if selected_path:\<close> block: the line it prints\<close>
  "validate_selected fs pose selected =
     (case selected of
        Some (selected_path, is_enhanced) \<Rightarrow>
          (case Image_open fs selected_path of
             Some img \<Rightarrow>
               (let (width', height') = img_size img;
                    quality = (if is_enhanced then ''ENHANCED'' else ''Original'');
                    expected_w = (if is_enhanced then 256 else 64);
                    expected_h = (if is_enhanced then 384 else 96)
                in if width' = expected_w \<and> height' = expected_h
                   then Valid pose quality width' height'
                   else SizeMismatch pose quality width' height' expected_w expected_h)
           | None \<Rightarrow> FailedToValidate pose)
      | None \<Rightarrow> FileNotFound pose)"

definition validate_pose ::
  "filesystem \<Rightarrow> path \<Rightarrow> string \<Rightarrow> string \<Rightarrow> validation \<times> char_results
     \<Rightarrow> validation \<times> char_results" where
  \<comment> \<open>the body of \<open>for pose in poses:\<close>\<close>
  "validate_pose fs assets character pose = (\<lambda>(v, cr).
     let v = v\<lparr>total_sprites := total_sprites v + 1\<rparr>;
         enhanced_path = assets @ [character, ''sprites'', character @ ''_'' @ pose @ ''_enhanced.png''];
         original_path = assets @ [character, ''sprites'', character @ ''_'' @ pose @ ''.png''];
         (selected, v, cr) = smart_loading fs enhanced_path original_path pose (v, cr)
     in (v\<lparr>report := report v @ [validate_selected fs pose selected]\<rparr>, cr))"

definition validate_character ::
  "filesystem \<Rightarrow> path \<Rightarrow> string list \<Rightarrow> string
     \<Rightarrow> validation \<times> (string \<times> char_results) list
     \<Rightarrow> validation \<times> (string \<times> char_results) list" where
  \<comment> \<open>the body of \<open>for character in characters:\<close>\<close>
  "validate_character fs assets poses character = (\<lambda>(v, results).
     let char_results = \<lparr>n_original = 0, n_enhanced = 0, missing = []\<rparr>;
         (v, char_results) = fold (validate_pose fs assets character) poses (v, char_results)
     in (v, AList.update character char_results results))"

definition validate_sprite_system ::
  "filesystem \<Rightarrow> path \<Rightarrow> bool \<times> validation \<times> (string \<times> char_results) list" where
  \<comment> \<open>the returned flag, with the counters, the printed lines and \<open>results\<close>\<close>
  "validate_sprite_system fs project_root =
     (let assets = project_root @ [''assets'', ''sprites'', ''street_fighter_6''];
          v0 = \<lparr>total_sprites = 0, loaded_sprites = 0, enhanced_sprites = 0, report = []\<rparr>
      in if \<not> exists fs assets then (False, v0, [])
         else
           (let characters = [''ryu'', ''ken'', ''chun_li'', ''zangief'', ''sagat'', ''lei_wulong''];
                poses = [''idle'', ''walk'', ''attack'', ''jump''];
                (v, results) = fold (validate_character fs assets poses) characters (v0, [])
            in if loaded_sprites v = total_sprites v \<and> enhanced_sprites v = total_sprites v
               then (True, v, results)
               else if loaded_sprites v = total_sprites v then (True, v, results)
               else (False, v, results)))"

section \<open>Example inputs\<close>

definition quiet_env :: env where
  \<comment> \<open>an environment in which the library refuses only negative canvas sizes, float
      products are exact (truncated as for a height that is not negative), and no file
      operation raises (an interrupted save would leave a truncated file)\<close>
  "quiet_env = \<lparr>
     new_raises = (\<lambda>mode (w, h). w < 0 \<or> h < 0),
     op_raises = (\<lambda>f img. False),
     int_of_product = (\<lambda>h p. Some \<lfloor>of_int h * p\<rfloor>),
     save_raises = (\<lambda>p sprite. False),
     failed_save_leaves = (\<lambda>p sprite held. Some OtherFile),
     mkdir_raises = (\<lambda>d. False)\<rparr>"

definition small_config :: SpriteConfig where
  \<comment> \<open>as \<open>--width 32 --height 48 --enhanced-width 128 --enhanced-height 192\<close>\<close>
  "small_config = default_config\<lparr>width := 32, height := 48,
     enhanced_width := 128, enhanced_height := 192\<rparr>"

definition ryu_idle_png :: path where
  "ryu_idle_png = [''assets'', ''sprites'', ''street_fighter_6'', ''ryu'', ''sprites'', ''ryu_idle.png'']"

definition ryu_idle_enhanced_png :: path where
  "ryu_idle_enhanced_png =
     [''assets'', ''sprites'', ''street_fighter_6'', ''ryu'', ''sprites'', ''ryu_idle_enhanced.png'']"

definition blank :: "int \<times> int \<Rightarrow> image" where
  "blank sz = \<lparr>img_mode = ''RGBA'', img_size = sz, img_ops = []\<rparr>"

definition v0 :: validation where
  "v0 = \<lparr>total_sprites = 0, loaded_sprites = 0, enhanced_sprites = 0, report = []\<rparr>"

definition cr0 :: char_results where
  "cr0 = \<lparr>n_original = 0, n_enhanced = 0, missing = []\<rparr>"

definition unwritable_env :: env where
  \<comment> \<open>as \<open>quiet_env\<close>, but writing \<open>ryu_idle.png\<close> raises\<close>
  "unwritable_env = quiet_env\<lparr>save_raises := (\<lambda>p sprite. p = ryu_idle_png)\<rparr>"

definition ryu_sprites :: path where
  "ryu_sprites = [''assets'', ''sprites'', ''street_fighter_6'', ''ryu'', ''sprites'']"

definition empty_run :: char_run where
  "empty_run = \<lparr>generated_paths = [], files = Map.empty, printed = []\<rparr>"

section \<open>What a batch is expected to leave behind\<close>

text \<open>
  The following definitions are not taken from the source. They say, in the words of the
  specification, which outputs of a batch succeed and what a run does to the file system,
  and are compared with the loops of \<open>batch_generator.py\<close> below.
\<close>

definition tier_succeeds ::
  "env \<Rightarrow> SpriteGenerator \<Rightarrow> path \<Rightarrow> string \<Rightarrow> string \<Rightarrow> bool \<Rightarrow> bool" where
  \<comment> \<open>rendering and saving the output of one character, pose and tier raise nothing\<close>
  "tier_succeeds env g dir character_id pose enhanced' =
     (case generate_character_sprite env g character_id pose enhanced' of
        None \<Rightarrow> False
      | Some sprite \<Rightarrow>
          \<not> mkdir_raises env dir \<and>
          \<not> save_raises env
              (dir @ [sprite_file_name character_id (map_pose_name pose) enhanced']) sprite)"

definition successful_paths ::
  "env \<Rightarrow> SpriteGenerator \<Rightarrow> path \<Rightarrow> string \<Rightarrow> string list \<Rightarrow> path list" where
  \<comment> \<open>the output paths of the poses, base before enhanced, leaving out each one whose
      rendering or saving raises\<close>
  "successful_paths env g dir character_id poses =
     concat (map (\<lambda>pose.
       (if tier_succeeds env g dir character_id pose False
        then [dir @ [sprite_file_name character_id (map_pose_name pose) False]] else []) @
       (if tier_succeeds env g dir character_id pose True
        then [dir @ [sprite_file_name character_id (map_pose_name pose) True]] else [])) poses)"

definition expected_lines ::
  "env \<Rightarrow> SpriteGenerator \<Rightarrow> path \<Rightarrow> string \<Rightarrow> string list \<Rightarrow> batch_line list" where
  \<comment> \<open>one printed line per pose and tier: the file name, or the error\<close>
  "expected_lines env g dir character_id poses =
     concat (map (\<lambda>pose.
       [if tier_succeeds env g dir character_id pose False
        then Generated (sprite_file_name character_id (map_pose_name pose) False)
        else ErrorOriginal pose,
        if tier_succeeds env g dir character_id pose True
        then Generated (sprite_file_name character_id (map_pose_name pose) True)
        else ErrorEnhanced pose]) poses)"

datatype effect =
    MakeDirs path
  | Write path image
  | Interrupted path "node option \<Rightarrow> node option"

fun apply_effect :: "effect \<Rightarrow> filesystem \<Rightarrow> filesystem" where
  "apply_effect (MakeDirs d) fs = makedirs fs d"
| "apply_effect (Write p sprite) fs = fs(p \<mapsto> ImageFile sprite)"
| "apply_effect (Interrupted p leaves) fs = fs(p := leaves (fs p))"

definition tier_effects ::
  "env \<Rightarrow> SpriteGenerator \<Rightarrow> path \<Rightarrow> string \<Rightarrow> string \<Rightarrow> bool \<Rightarrow> effect list" where
  \<comment> \<open>what one output does to the file system, in order\<close>
  "tier_effects env g dir character_id pose enhanced' =
     (case generate_character_sprite env g character_id pose enhanced' of
        None \<Rightarrow> []
      | Some sprite \<Rightarrow>
          if mkdir_raises env dir then []
          else if save_raises env
                    (dir @ [sprite_file_name character_id (map_pose_name pose) enhanced']) sprite
          then [MakeDirs dir,
                Interrupted
                  (dir @ [sprite_file_name character_id (map_pose_name pose) enhanced'])
                  (failed_save_leaves env
                     (dir @ [sprite_file_name character_id (map_pose_name pose) enhanced']) sprite)]
          else [MakeDirs dir,
                Write (dir @ [sprite_file_name character_id (map_pose_name pose) enhanced']) sprite])"

definition pose_effects ::
  "env \<Rightarrow> SpriteGenerator \<Rightarrow> path \<Rightarrow> string \<Rightarrow> string list \<Rightarrow> effect list" where
  "pose_effects env g dir character_id poses =
     concat (map (\<lambda>pose. tier_effects env g dir character_id pose False @
                          tier_effects env g dir character_id pose True) poses)"

definition character_generator :: "SpriteConfig \<Rightarrow> string \<Rightarrow> SpriteGenerator" where
  \<comment> \<open>the generator a batch constructs for a character (its construction never raises,
      see \<open>SpriteGenerator_init_total\<close>)\<close>
  "character_generator config character_id =
     the (SpriteGenerator_init (char_config config character_id))"

definition batch_effects ::
  "env \<Rightarrow> path \<Rightarrow> SpriteConfig \<Rightarrow> string list \<Rightarrow> string list \<Rightarrow> effect list" where
  \<comment> \<open>what a batch does to the file system: per character, its sprite directory is made,
      then come the effects of its poses\<close>
  "batch_effects env project_root config characters poses =
     concat (map (\<lambda>c.
       MakeDirs (asset_dir project_root @ [c, ''sprites'']) #
       pose_effects env (character_generator config c)
         (asset_dir project_root @ [c, ''sprites'']) c poses) characters)"

section \<open>Dictionary lookups\<close>

lemma dict_get_absent: "k \<notin> fst ` set d \<Longrightarrow> dict_get d k dflt = dflt"
  by (simp add: dict_get_def map_of_eq_None_iff [THEN iffD2])

lemma dict_get_cases: "dict_get d k dflt = dflt \<or> (k, dict_get d k dflt) \<in> set d"
  by (auto simp: dict_get_def split: option.splits dest: map_of_SomeD)

section \<open>The pose model\<close>

text \<open>
  C4. \<open>_get_pose_offset\<close> and \<open>_get_body_lean\<close> are functions of the pose name and the
  scale alone. For each of the six poses of the vocabulary they return the entry of the
  table built from the scale, which is the entry for scale 1 multiplied by the scale; for
  any other name they return \<open>(0, 0)\<close> and \<open>0\<close>. No lookup can raise: the only
  dictionary access is \<open>get\<close> with a default.
\<close>

theorem pose_offset_and_lean_total:
  "get_pose_offset ''idle'' scale = (0, 0) \<and> get_body_lean ''idle'' scale = 0 \<and>
   get_pose_offset ''walk'' scale = (2 * scale, 0) \<and> get_body_lean ''walk'' scale = scale \<and>
   get_pose_offset ''punch'' scale = (3 * scale, - 2 * scale) \<and>
   get_body_lean ''punch'' scale = 3 * scale \<and>
   get_pose_offset ''kick'' scale = (scale, - scale) \<and> get_body_lean ''kick'' scale = - 2 * scale \<and>
   get_pose_offset ''jump'' scale = (0, - 8 * scale) \<and> get_body_lean ''jump'' scale = 0 \<and>
   get_pose_offset ''special'' scale = (2 * scale, - 4 * scale) \<and>
   get_body_lean ''special'' scale = 2 * scale \<and>
   (pose \<in> set pose_vocabulary \<longrightarrow>
      map_of (offsets scale) pose = Some (get_pose_offset pose scale) \<and>
      map_of (leans scale) pose = Some (get_body_lean pose scale)) \<and>
   (pose \<notin> set pose_vocabulary \<longrightarrow>
      get_pose_offset pose scale = (0, 0) \<and> get_body_lean pose scale = 0) \<and>
   get_pose_offset pose scale
     = (scale * fst (get_pose_offset pose 1), scale * snd (get_pose_offset pose 1)) \<and>
   get_body_lean pose scale = scale * get_body_lean pose 1"
  by (simp add: get_pose_offset_def get_body_lean_def offsets_def leans_def dict_get_def
        pose_vocabulary_def)

theorem pose_offset_and_lean_total_witness:
  "''kick'' \<in> set pose_vocabulary \<and>
   map_of (offsets 4) ''kick'' = Some (4, - 4) \<and> get_pose_offset ''kick'' 4 = (4, - 4) \<and>
   map_of (leans 4) ''kick'' = Some (- 8) \<and> get_body_lean ''kick'' 4 = - 8 \<and>
   ''attack'' \<notin> set pose_vocabulary \<and>
   get_pose_offset ''attack'' 4 = (0, 0) \<and> get_body_lean ''attack'' 4 = 0"
proof -
  have k: "''kick'' \<in> set pose_vocabulary" and a: "''attack'' \<notin> set pose_vocabulary"
    by (simp_all add: pose_vocabulary_def)
  from k pose_offset_and_lean_total [of 4 "''kick''"]
  have "map_of (offsets 4) ''kick'' = Some (4, - 4) \<and> get_pose_offset ''kick'' 4 = (4, - 4) \<and>
        map_of (leans 4) ''kick'' = Some (- 8) \<and> get_body_lean ''kick'' 4 = - 8"
    by simp
  moreover from a pose_offset_and_lean_total [of 4 "''attack''"]
  have "get_pose_offset ''attack'' 4 = (0, 0) \<and> get_body_lean ''attack'' 4 = 0"
    by simp
  ultimately show ?thesis using k a by simp
qed

section \<open>The archetype registry\<close>

text \<open>
  C7. A character id that is not a key of the table of \<open>_get_character_archetype\<close>
  resolves to the archetype name \<open>balanced\<close>, and \<open>FighterArchetype.get_archetype\<close>
  returns, for a name that is not a key of \<open>ARCHETYPES\<close>, the definition stored under
  \<open>balanced\<close>; it returns a value (the lookup of the default does not raise).
\<close>

theorem unknown_archetype_is_balanced:
  "(character_id \<notin> fst ` set archetype_mapping \<longrightarrow>
      get_character_archetype character_id = ''balanced'') \<and>
   (name \<notin> fst ` set ARCHETYPES \<longrightarrow>
      get_archetype name = dict_item ARCHETYPES ''balanced'' \<and>
      get_archetype name = Some \<lparr>body_type = ''medium'', stance = ''neutral'',
         proportions = \<lparr>head = 12/100, torso = 45/100, legs = 43/100\<rparr>,
         muscle_definition = ''medium''\<rparr>)"
proof (intro conjI impI)
  assume "character_id \<notin> fst ` set archetype_mapping"
  then show "get_character_archetype character_id = ''balanced''"
    by (simp add: get_character_archetype_def dict_get_absent)
next
  assume n: "name \<notin> fst ` set ARCHETYPES"
  have b: "dict_item ARCHETYPES ''balanced'' = Some \<lparr>body_type = ''medium'', stance = ''neutral'',
         proportions = \<lparr>head = 12/100, torso = 45/100, legs = 43/100\<rparr>,
         muscle_definition = ''medium''\<rparr>"
    by (simp add: dict_item_def ARCHETYPES_def)
  from n b show "get_archetype name = dict_item ARCHETYPES ''balanced''"
    by (simp add: get_archetype_def dict_get_absent)
  with b show "get_archetype name = Some \<lparr>body_type = ''medium'', stance = ''neutral'',
         proportions = \<lparr>head = 12/100, torso = 45/100, legs = 43/100\<rparr>,
         muscle_definition = ''medium''\<rparr>"
    by simp
qed

theorem unknown_archetype_is_balanced_witness:
  "''necalli'' \<notin> fst ` set archetype_mapping \<and>
   get_character_archetype ''necalli'' = ''balanced'' \<and>
   ''boss'' \<notin> fst ` set ARCHETYPES \<and>
   get_archetype ''boss'' = Some \<lparr>body_type = ''medium'', stance = ''neutral'',
         proportions = \<lparr>head = 12/100, torso = 45/100, legs = 43/100\<rparr>,
         muscle_definition = ''medium''\<rparr>"
proof -
  have c: "''necalli'' \<notin> fst ` set archetype_mapping"
    by (simp add: archetype_mapping_def)
  have n: "''boss'' \<notin> fst ` set ARCHETYPES"
    by (simp add: ARCHETYPES_def)
  from c n unknown_archetype_is_balanced [of "''necalli''" "''boss''"] show ?thesis
    by blast
qed

section \<open>The palette registry\<close>

lemma get_palette_nonempty: "get_palette name = Some p \<Longrightarrow> p \<noteq> []"
proof -
  assume a: "get_palette name = Some p"
  have d: "dict_item PALETTES ''default'' = Some (snd (hd PALETTES))"
    by (simp add: dict_item_def PALETTES_def)
  from a d have p: "p = dict_get PALETTES name (snd (hd PALETTES))"
    by (simp add: get_palette_def)
  have "\<forall>e \<in> set PALETTES. snd e \<noteq> []"
    by (simp add: PALETTES_def)
  moreover have "snd (hd PALETTES) \<noteq> []"
    by (simp add: PALETTES_def)
  ultimately show ?thesis
    using dict_get_cases [of PALETTES name "snd (hd PALETTES)"] p by fastforce
qed

lemma draw_character_ignores_palette_field:
  "draw_character env (self\<lparr>self_palette := p\<rparr>) s pal pose w h sc
     = draw_character env self s pal pose w h sc"
  by (simp add: draw_character_def draw_torso_def)

text \<open>
  The palette resolved from the configuration is never drawn with: \<open>get_palette\<close> returns
  the default palette for an unknown name, never an empty one, so the test
  \<open>if not char_palette\<close> never succeeds.
\<close>

lemma config_palette_never_used:
  "generate_character_sprite env (self\<lparr>self_palette := p\<rparr>) character_id pose enhanced'
     = generate_character_sprite env self character_id pose enhanced'"
proof (cases "get_palette character_id")
  case None
  then show ?thesis
    by (simp add: generate_character_sprite_def Let_def split: prod.splits)
next
  case (Some cp)
  then have "cp \<noteq> []" by (rule get_palette_nonempty)
  with Some show ?thesis
    by (simp add: generate_character_sprite_def Let_def draw_character_ignores_palette_field
          split: prod.splits)
qed

text \<open>
  C1. The claim asks that a character id without a palette of its own be drawn with the
  palette named by the configuration. At the configuration with \<open>palette_name = "ken"\<close>
  and the character id \<open>akuma\<close>, which has no entry in \<open>PALETTES\<close>, the sprite is the
  one drawn with the palette stored under \<open>default\<close>, and it differs from the one drawn
  with the palette stored under \<open>ken\<close>.
\<close>

theorem unknown_character_drawn_with_default_palette:
  "map_of PALETTES ''akuma'' = None \<and>
   do { g \<leftarrow> SpriteGenerator_init (default_config\<lparr>palette_name := ''ken''\<rparr>);
        generate_character_sprite quiet_env g ''akuma'' ''idle'' False }
   = do { g \<leftarrow> SpriteGenerator_init (default_config\<lparr>palette_name := ''ken''\<rparr>);
          canvas \<leftarrow> Image_new quiet_env ''RGBA'' (64, 96);
          default_palette \<leftarrow> dict_item PALETTES ''default'';
          draw_character quiet_env g canvas default_palette ''idle'' 64 96 1 } \<and>
   do { g \<leftarrow> SpriteGenerator_init (default_config\<lparr>palette_name := ''ken''\<rparr>);
        generate_character_sprite quiet_env g ''akuma'' ''idle'' False }
   \<noteq> do { g \<leftarrow> SpriteGenerator_init (default_config\<lparr>palette_name := ''ken''\<rparr>);
          canvas \<leftarrow> Image_new quiet_env ''RGBA'' (64, 96);
          config_palette \<leftarrow> dict_item PALETTES ''ken'';
          draw_character quiet_env g canvas config_palette ''idle'' 64 96 1 }"
  by code_simp

section \<open>Canvas sizes\<close>

lemma apply_op_size: "apply_op env f img = Some img' \<Longrightarrow> img_size img' = img_size img"
  by (auto simp: apply_op_def split: if_splits)

lemma rectangle_size: "rectangle env draw xy f l = Some img' \<Longrightarrow> img_size img' = img_size draw"
  by (simp add: rectangle_def apply_op_size)

lemma ellipse_size: "ellipse env draw xy f l = Some img' \<Longrightarrow> img_size img' = img_size draw"
  by (simp add: ellipse_def apply_op_size)

lemma draw_legs_size:
  "draw_legs env draw pal cx bottom w h pose scale = Some img' \<Longrightarrow> img_size img' = img_size draw"
  by (auto simp: draw_legs_def Let_def bind_eq_Some_conv split: if_splits dest!: rectangle_size)

lemma draw_torso_size:
  "draw_torso env self draw pal cx bottom w h pose scale = Some img' \<Longrightarrow> img_size img' = img_size draw"
  by (auto simp: draw_torso_def Let_def bind_eq_Some_conv split: if_splits
        dest!: rectangle_size ellipse_size)

lemma draw_head_size:
  "draw_head env draw pal cx bottom w h pose scale = Some img' \<Longrightarrow> img_size img' = img_size draw"
  by (auto simp: draw_head_def Let_def bind_eq_Some_conv dest!: ellipse_size)

lemma draw_arms_size:
  "draw_arms env draw pal cx cy pose scale tw th = Some img' \<Longrightarrow> img_size img' = img_size draw"
  by (auto simp: draw_arms_def Let_def bind_eq_Some_conv split: if_splits
        dest!: rectangle_size ellipse_size)

lemma draw_character_size:
  "draw_character env self draw pal pose w h scale = Some img' \<Longrightarrow> img_size img' = img_size draw"
  by (auto simp: draw_character_def Let_def bind_eq_Some_conv
        dest!: draw_legs_size draw_torso_size draw_head_size draw_arms_size)

lemma apply_dithering_size: "apply_dithering env img = Some img' \<Longrightarrow> img_size img' = img_size img"
  by (auto simp: apply_dithering_def quantize_def convert_def bind_eq_Some_conv dest!: apply_op_size)

lemma Image_new_size: "Image_new env mode sz = Some img \<Longrightarrow> img_size img = sz"
  by (auto simp: Image_new_def split: if_splits)

text \<open>
  C6. Whenever \<open>generate_character_sprite\<close> returns a sprite, its size is
  \<open>enhanced_width \<times> enhanced_height\<close> of the configuration for the enhanced tier and
  \<open>width \<times> height\<close> for the base tier, with or without dithering: drawing, quantizing and
  converting leave the size of the canvas as \<open>Image.new\<close> made it.
\<close>

theorem generated_sprite_has_configured_size:
  "generate_character_sprite env self character_id pose enhanced' = Some sprite \<Longrightarrow>
   img_size sprite =
     (if enhanced' then (enhanced_width (self_config self), enhanced_height (self_config self))
      else (width (self_config self), height (self_config self)))"
  by (auto simp: generate_character_sprite_def Let_def bind_eq_Some_conv split: if_splits
        dest!: Image_new_size draw_character_size apply_dithering_size)

theorem generated_sprite_has_configured_size_witness:
  "\<exists>g enhanced_sprite base_sprite.
     SpriteGenerator_init (small_config\<lparr>use_dithering := True\<rparr>) = Some g \<and>
     generate_character_sprite quiet_env g ''ryu'' ''punch'' True = Some enhanced_sprite \<and>
     img_size enhanced_sprite = (128, 192) \<and>
     generate_character_sprite quiet_env g ''ryu'' ''punch'' False = Some base_sprite \<and>
     img_size base_sprite = (32, 48)"
proof -
  define g where "g = the (SpriteGenerator_init (small_config\<lparr>use_dithering := True\<rparr>))"
  have init: "SpriteGenerator_init (small_config\<lparr>use_dithering := True\<rparr>) = Some g"
    unfolding g_def by code_simp
  have cfg: "self_config g = small_config\<lparr>use_dithering := True\<rparr>"
    using init by (auto simp: SpriteGenerator_init_def bind_eq_Some_conv)
  have "generate_character_sprite quiet_env g ''ryu'' ''punch'' True \<noteq> None"
    unfolding g_def by code_simp
  then obtain e where e: "generate_character_sprite quiet_env g ''ryu'' ''punch'' True = Some e"
    by blast
  have "generate_character_sprite quiet_env g ''ryu'' ''punch'' False \<noteq> None"
    unfolding g_def by code_simp
  then obtain b where b: "generate_character_sprite quiet_env g ''ryu'' ''punch'' False = Some b"
    by blast
  from generated_sprite_has_configured_size [OF e] cfg have "img_size e = (128, 192)"
    by (simp add: small_config_def default_config_def)
  moreover from generated_sprite_has_configured_size [OF b] cfg have "img_size b = (32, 48)"
    by (simp add: small_config_def default_config_def)
  ultimately show ?thesis using init e b by blast
qed

section \<open>The enhanced pass\<close>

lemma draw_character_ignores_config:
  "draw_character env (self\<lparr>self_config := c\<rparr>) s pal pose w h sc
     = draw_character env self s pal pose w h sc"
  by (simp add: draw_character_def draw_torso_def)

text \<open>
  C10. The enhanced pass creates a canvas of \<open>enhanced_width \<times> enhanced_height\<close> and
  draws on it with scale 4, whatever the configuration. The base width and height play no
  part in it: changing them leaves the enhanced sprite as it was, so nothing relates the
  enhanced size to the base size. The configuration with base size 64 by 96 and enhanced
  size 100 by 50 renders, with the geometry of scale 4 (a bottom margin of 20, leg width
  24, eyes of size 8).
\<close>

theorem enhanced_pass_draws_at_scale_4:
  "generate_character_sprite env self character_id pose True = do {
     sprite \<leftarrow> Image_new env ''RGBA''
       (enhanced_width (self_config self), enhanced_height (self_config self));
     char_palette \<leftarrow> get_palette character_id;
     sprite \<leftarrow> draw_character env self sprite char_palette pose
       (enhanced_width (self_config self)) (enhanced_height (self_config self)) 4;
     if use_dithering (self_config self) then apply_dithering env sprite else Some sprite } \<and>
   generate_character_sprite env
       (self\<lparr>self_config := (self_config self)\<lparr>width := w, height := h\<rparr>\<rparr>) character_id pose True
     = generate_character_sprite env self character_id pose True \<and>
   do { g \<leftarrow> SpriteGenerator_init
          (default_config\<lparr>enhanced_width := 100, enhanced_height := 50\<rparr>);
        generate_character_sprite quiet_env g ''ken'' ''kick'' True }
   = Some \<lparr>img_mode = ''RGBA'', img_size = (100, 50),
       img_ops =
         [Rectangle [36, 9, 42, 30] (Some (255, 0, 0)) (Some (0, 0, 0)),
          Rectangle [42, 20, 54, 23] (Some (255, 0, 0)) (Some (0, 0, 0)),
          Rectangle [22, - 13, 62, 9] (Some (255, 0, 0)) (Some (0, 0, 0)),
          Rectangle [22, - 4, 62, 12] (Some (139, 69, 19)) (Some (0, 0, 0)),
          Ellipse [26, - 19, 58, - 13] (Some (255, 220, 177)) (Some (0, 0, 0)),
          Ellipse [26, - 19, 58, - 17] (Some (255, 215, 0)) (Some (0, 0, 0)),
          Ellipse [30, - 21, 38, - 13] (Some (0, 100, 200)) None,
          Ellipse [46, - 21, 54, - 13] (Some (0, 100, 200)) None,
          Rectangle [6, - 18, 22, 1] (Some (255, 0, 0)) (Some (0, 0, 0)),
          Rectangle [62, - 18, 78, 1] (Some (255, 0, 0)) (Some (0, 0, 0))]\<rparr>"
proof (intro conjI)
  have "\<And>s. get_palette character_id \<bind> (\<lambda>cp. draw_character env self s
            (if cp = [] then self_palette self else cp) pose
            (enhanced_width (self_config self)) (enhanced_height (self_config self)) 4 \<bind>
            (\<lambda>sprite. if use_dithering (self_config self) then apply_dithering env sprite
               else Some sprite))
        = get_palette character_id \<bind> (\<lambda>cp. draw_character env self s cp pose
            (enhanced_width (self_config self)) (enhanced_height (self_config self)) 4 \<bind>
            (\<lambda>sprite. if use_dithering (self_config self) then apply_dithering env sprite
               else Some sprite))"
    by (cases "get_palette character_id") (auto dest: get_palette_nonempty)
  then show "generate_character_sprite env self character_id pose True = do {
     sprite \<leftarrow> Image_new env ''RGBA''
       (enhanced_width (self_config self), enhanced_height (self_config self));
     char_palette \<leftarrow> get_palette character_id;
     sprite \<leftarrow> draw_character env self sprite char_palette pose
       (enhanced_width (self_config self)) (enhanced_height (self_config self)) 4;
     if use_dithering (self_config self) then apply_dithering env sprite else Some sprite }"
    by (simp add: generate_character_sprite_def Let_def)
next
  show "generate_character_sprite env
       (self\<lparr>self_config := (self_config self)\<lparr>width := w, height := h\<rparr>\<rparr>) character_id pose True
     = generate_character_sprite env self character_id pose True"
    by (simp add: generate_character_sprite_def draw_character_ignores_config cong: if_cong)
next
  show "do { g \<leftarrow> SpriteGenerator_init
          (default_config\<lparr>enhanced_width := 100, enhanced_height := 50\<rparr>);
        generate_character_sprite quiet_env g ''ken'' ''kick'' True }
   = Some \<lparr>img_mode = ''RGBA'', img_size = (100, 50),
       img_ops =
         [Rectangle [36, 9, 42, 30] (Some (255, 0, 0)) (Some (0, 0, 0)),
          Rectangle [42, 20, 54, 23] (Some (255, 0, 0)) (Some (0, 0, 0)),
          Rectangle [22, - 13, 62, 9] (Some (255, 0, 0)) (Some (0, 0, 0)),
          Rectangle [22, - 4, 62, 12] (Some (139, 69, 19)) (Some (0, 0, 0)),
          Ellipse [26, - 19, 58, - 13] (Some (255, 220, 177)) (Some (0, 0, 0)),
          Ellipse [26, - 19, 58, - 17] (Some (255, 215, 0)) (Some (0, 0, 0)),
          Ellipse [30, - 21, 38, - 13] (Some (0, 100, 200)) None,
          Ellipse [46, - 21, 54, - 13] (Some (0, 100, 200)) None,
          Rectangle [6, - 18, 22, 1] (Some (255, 0, 0)) (Some (0, 0, 0)),
          Rectangle [62, - 18, 78, 1] (Some (255, 0, 0)) (Some (0, 0, 0))]\<rparr>"
    by code_simp
qed

section \<open>The validator\<close>

lemma fold_validate_pose:
  "fold (validate_pose fs assets character) poses (v, cr) =
     (v\<lparr>total_sprites := total_sprites v + int (length poses),
        loaded_sprites := loaded_sprites v + int (length (filter (\<lambda>pose.
           exists fs (assets @ [character, ''sprites'', character @ ''_'' @ pose @ ''_enhanced.png'']) \<or>
           exists fs (assets @ [character, ''sprites'', character @ ''_'' @ pose @ ''.png''])) poses)),
        enhanced_sprites := enhanced_sprites v + int (length (filter (\<lambda>pose.
           exists fs (assets @ [character, ''sprites'', character @ ''_'' @ pose @ ''_enhanced.png''])) poses)),
        report := report v @ map (\<lambda>pose. validate_selected fs pose
           (if exists fs (assets @ [character, ''sprites'', character @ ''_'' @ pose @ ''_enhanced.png''])
            then Some (assets @ [character, ''sprites'', character @ ''_'' @ pose @ ''_enhanced.png''], True)
            else if exists fs (assets @ [character, ''sprites'', character @ ''_'' @ pose @ ''.png''])
            then Some (assets @ [character, ''sprites'', character @ ''_'' @ pose @ ''.png''], False)
            else None)) poses\<rparr>,
      cr\<lparr>n_original := n_original cr + int (length (filter (\<lambda>pose.
           \<not> exists fs (assets @ [character, ''sprites'', character @ ''_'' @ pose @ ''_enhanced.png'']) \<and>
           exists fs (assets @ [character, ''sprites'', character @ ''_'' @ pose @ ''.png''])) poses)),
         n_enhanced := n_enhanced cr + int (length (filter (\<lambda>pose.
           exists fs (assets @ [character, ''sprites'', character @ ''_'' @ pose @ ''_enhanced.png''])) poses)),
         missing := missing cr @ filter (\<lambda>pose.
           \<not> exists fs (assets @ [character, ''sprites'', character @ ''_'' @ pose @ ''_enhanced.png'']) \<and>
           \<not> exists fs (assets @ [character, ''sprites'', character @ ''_'' @ pose @ ''.png''])) poses\<rparr>)"
proof (induction poses arbitrary: v cr)
  case Nil
  then show ?case by simp
next
  case (Cons p ps)
  show ?case
    by (simp add: validate_pose_def [of fs assets character p] smart_loading_def Let_def Cons.IH)
qed

text \<open>
  C2. For a character and a pose, the loop body of \<open>validate_sprite_system\<close> looks at the
  enhanced file first. When it exists it is the selected file, whether or not the base file
  exists, and the pose counts as enhanced; otherwise, when the base file exists, that one is
  selected and the pose counts as original; otherwise nothing is selected, the pose is
  appended to the missing ones and the line printed is "File not found". Over the poses of
  a character, the entry recorded for the character therefore counts as enhanced the poses
  whose enhanced file exists, as original those with only a base file, and lists the others
  as missing.
\<close>

theorem validator_fallback_precedence:
  "(case validate_pose fs assets character pose (v, cr) of (v', cr') \<Rightarrow>
     let enhanced_path = assets @ [character, ''sprites'', character @ ''_'' @ pose @ ''_enhanced.png''];
         original_path = assets @ [character, ''sprites'', character @ ''_'' @ pose @ ''.png'']
     in total_sprites v' = total_sprites v + 1 \<and>
        (exists fs enhanced_path \<longrightarrow>
           report v' = report v @ [validate_selected fs pose (Some (enhanced_path, True))] \<and>
           n_enhanced cr' = n_enhanced cr + 1 \<and> n_original cr' = n_original cr \<and>
           missing cr' = missing cr \<and>
           loaded_sprites v' = loaded_sprites v + 1 \<and>
           enhanced_sprites v' = enhanced_sprites v + 1) \<and>
        (\<not> exists fs enhanced_path \<and> exists fs original_path \<longrightarrow>
           report v' = report v @ [validate_selected fs pose (Some (original_path, False))] \<and>
           n_enhanced cr' = n_enhanced cr \<and> n_original cr' = n_original cr + 1 \<and>
           missing cr' = missing cr \<and>
           loaded_sprites v' = loaded_sprites v + 1 \<and>
           enhanced_sprites v' = enhanced_sprites v) \<and>
        (\<not> exists fs enhanced_path \<and> \<not> exists fs original_path \<longrightarrow>
           report v' = report v @ [FileNotFound pose] \<and>
           n_enhanced cr' = n_enhanced cr \<and> n_original cr' = n_original cr \<and>
           missing cr' = missing cr @ [pose] \<and>
           loaded_sprites v' = loaded_sprites v \<and>
           enhanced_sprites v' = enhanced_sprites v)) \<and>
   (case validate_character fs assets poses character (v, recorded) of (v', recorded') \<Rightarrow>
     let enhanced_path = (\<lambda>pose.
           assets @ [character, ''sprites'', character @ ''_'' @ pose @ ''_enhanced.png'']);
         original_path = (\<lambda>pose.
           assets @ [character, ''sprites'', character @ ''_'' @ pose @ ''.png''])
     in map_of recorded' character = Some
          \<lparr>n_original = int (length (filter (\<lambda>pose.
              \<not> exists fs (enhanced_path pose) \<and> exists fs (original_path pose)) poses)),
           n_enhanced = int (length (filter (\<lambda>pose. exists fs (enhanced_path pose)) poses)),
           missing = filter (\<lambda>pose.
              \<not> exists fs (enhanced_path pose) \<and> \<not> exists fs (original_path pose)) poses\<rparr> \<and>
        total_sprites v' = total_sprites v + int (length poses) \<and>
        enhanced_sprites v' = enhanced_sprites v
          + int (length (filter (\<lambda>pose. exists fs (enhanced_path pose)) poses)) \<and>
        loaded_sprites v' = loaded_sprites v
          + int (length (filter (\<lambda>pose.
              exists fs (enhanced_path pose) \<or> exists fs (original_path pose)) poses)))"
proof (rule conjI)
  show "case validate_pose fs assets character pose (v, cr) of (v', cr') \<Rightarrow>
     let enhanced_path = assets @ [character, ''sprites'', character @ ''_'' @ pose @ ''_enhanced.png''];
         original_path = assets @ [character, ''sprites'', character @ ''_'' @ pose @ ''.png'']
     in total_sprites v' = total_sprites v + 1 \<and>
        (exists fs enhanced_path \<longrightarrow>
           report v' = report v @ [validate_selected fs pose (Some (enhanced_path, True))] \<and>
           n_enhanced cr' = n_enhanced cr + 1 \<and> n_original cr' = n_original cr \<and>
           missing cr' = missing cr \<and>
           loaded_sprites v' = loaded_sprites v + 1 \<and>
           enhanced_sprites v' = enhanced_sprites v + 1) \<and>
        (\<not> exists fs enhanced_path \<and> exists fs original_path \<longrightarrow>
           report v' = report v @ [validate_selected fs pose (Some (original_path, False))] \<and>
           n_enhanced cr' = n_enhanced cr \<and> n_original cr' = n_original cr + 1 \<and>
           missing cr' = missing cr \<and>
           loaded_sprites v' = loaded_sprites v + 1 \<and>
           enhanced_sprites v' = enhanced_sprites v) \<and>
        (\<not> exists fs enhanced_path \<and> \<not> exists fs original_path \<longrightarrow>
           report v' = report v @ [FileNotFound pose] \<and>
           n_enhanced cr' = n_enhanced cr \<and> n_original cr' = n_original cr \<and>
           missing cr' = missing cr @ [pose] \<and>
           loaded_sprites v' = loaded_sprites v \<and>
           enhanced_sprites v' = enhanced_sprites v)"
    by (simp add: validate_pose_def smart_loading_def validate_selected_def Let_def)
next
  show "case validate_character fs assets poses character (v, recorded) of (v', recorded') \<Rightarrow>
     let enhanced_path = (\<lambda>pose.
           assets @ [character, ''sprites'', character @ ''_'' @ pose @ ''_enhanced.png'']);
         original_path = (\<lambda>pose.
           assets @ [character, ''sprites'', character @ ''_'' @ pose @ ''.png''])
     in map_of recorded' character = Some
          \<lparr>n_original = int (length (filter (\<lambda>pose.
              \<not> exists fs (enhanced_path pose) \<and> exists fs (original_path pose)) poses)),
           n_enhanced = int (length (filter (\<lambda>pose. exists fs (enhanced_path pose)) poses)),
           missing = filter (\<lambda>pose.
              \<not> exists fs (enhanced_path pose) \<and> \<not> exists fs (original_path pose)) poses\<rparr> \<and>
        total_sprites v' = total_sprites v + int (length poses) \<and>
        enhanced_sprites v' = enhanced_sprites v
          + int (length (filter (\<lambda>pose. exists fs (enhanced_path pose)) poses)) \<and>
        loaded_sprites v' = loaded_sprites v
          + int (length (filter (\<lambda>pose.
              exists fs (enhanced_path pose) \<or> exists fs (original_path pose)) poses))"
    by (simp add: validate_character_def fold_validate_pose Let_def update_conv')
qed

theorem validator_fallback_precedence_witness:
  "validate_pose
     (Map.empty(ryu_idle_png \<mapsto> ImageFile (blank (64, 96)),
                ryu_idle_enhanced_png \<mapsto> ImageFile (blank (256, 384))))
     [''assets'', ''sprites'', ''street_fighter_6''] ''ryu'' ''idle'' (v0, cr0)
   = (\<lparr>total_sprites = 1, loaded_sprites = 1, enhanced_sprites = 1,
        report = [Valid ''idle'' ''ENHANCED'' 256 384]\<rparr>,
      \<lparr>n_original = 0, n_enhanced = 1, missing = []\<rparr>) \<and>
   validate_pose (Map.empty(ryu_idle_png \<mapsto> ImageFile (blank (64, 96))))
     [''assets'', ''sprites'', ''street_fighter_6''] ''ryu'' ''idle'' (v0, cr0)
   = (\<lparr>total_sprites = 1, loaded_sprites = 1, enhanced_sprites = 0,
        report = [Valid ''idle'' ''Original'' 64 96]\<rparr>,
      \<lparr>n_original = 1, n_enhanced = 0, missing = []\<rparr>) \<and>
   validate_pose Map.empty
     [''assets'', ''sprites'', ''street_fighter_6''] ''ryu'' ''idle'' (v0, cr0)
   = (\<lparr>total_sprites = 1, loaded_sprites = 0, enhanced_sprites = 0,
        report = [FileNotFound ''idle'']\<rparr>,
      \<lparr>n_original = 0, n_enhanced = 0, missing = [''idle'']\<rparr>)"
proof -
  let ?assets = "[''assets'', ''sprites'', ''street_fighter_6'']"
  let ?both = "Map.empty(ryu_idle_png \<mapsto> ImageFile (blank (64, 96)),
                 ryu_idle_enhanced_png \<mapsto> ImageFile (blank (256, 384)))"
  let ?base = "Map.empty(ryu_idle_png \<mapsto> ImageFile (blank (64, 96)))"
  have 1: "validate_pose ?both ?assets ''ryu'' ''idle'' (v0, cr0)
   = (\<lparr>total_sprites = 1, loaded_sprites = 1, enhanced_sprites = 1,
        report = [Valid ''idle'' ''ENHANCED'' 256 384]\<rparr>,
      \<lparr>n_original = 0, n_enhanced = 1, missing = []\<rparr>)"
    using validator_fallback_precedence [where fs = ?both and assets = ?assets
            and character = "''ryu''" and pose = "''idle''" and v = v0 and cr = cr0,
            THEN conjunct1]
    by (simp add: Let_def exists_def validate_selected_def Image_open_def blank_def
          ryu_idle_png_def ryu_idle_enhanced_png_def v0_def cr0_def split: prod.splits)
  have 2: "validate_pose ?base ?assets ''ryu'' ''idle'' (v0, cr0)
   = (\<lparr>total_sprites = 1, loaded_sprites = 1, enhanced_sprites = 0,
        report = [Valid ''idle'' ''Original'' 64 96]\<rparr>,
      \<lparr>n_original = 1, n_enhanced = 0, missing = []\<rparr>)"
    using validator_fallback_precedence [where fs = ?base and assets = ?assets
            and character = "''ryu''" and pose = "''idle''" and v = v0 and cr = cr0,
            THEN conjunct1]
    by (simp add: Let_def exists_def validate_selected_def Image_open_def blank_def
          ryu_idle_png_def ryu_idle_enhanced_png_def v0_def cr0_def split: prod.splits)
  have 3: "validate_pose Map.empty ?assets ''ryu'' ''idle'' (v0, cr0)
   = (\<lparr>total_sprites = 1, loaded_sprites = 0, enhanced_sprites = 0,
        report = [FileNotFound ''idle'']\<rparr>,
      \<lparr>n_original = 0, n_enhanced = 0, missing = [''idle'']\<rparr>)"
    using validator_fallback_precedence [where fs = Map.empty and assets = ?assets
            and character = "''ryu''" and pose = "''idle''" and v = v0 and cr = cr0,
            THEN conjunct1]
    by (simp add: Let_def exists_def v0_def cr0_def split: prod.splits)
  from 1 2 3 show ?thesis by blast
qed

text \<open>
  C3, as the code has it. \<open>validate_sprite_system\<close> takes no configuration. When the
  selected file opens as an image, its size is compared with fixed dimensions: 256 by 384
  for an enhanced file, 64 by 96 for a base file (the defaults of \<open>SpriteConfig\<close>). A
  mismatch is printed as a size-mismatch line with both sizes; the file has been counted as
  found, and the pose is not added to the missing ones.
\<close>

theorem size_compared_with_fixed_dimensions:
  assumes "smart_loading fs enhanced_path original_path pose (v, cr) = (Some (p, e), v', cr')"
    and "Image_open fs p = Some img"
  shows "loaded_sprites v' = loaded_sprites v + 1 \<and> missing cr' = missing cr \<and>
         validate_selected fs pose (Some (p, e)) =
           (if img_size img = (if e then (256, 384) else (64, 96))
            then Valid pose (if e then ''ENHANCED'' else ''Original'')
                   (fst (img_size img)) (snd (img_size img))
            else SizeMismatch pose (if e then ''ENHANCED'' else ''Original'')
                   (fst (img_size img)) (snd (img_size img))
                   (if e then 256 else 64) (if e then 384 else 96))"
  using assms
  by (auto simp: smart_loading_def validate_selected_def Let_def split: if_splits prod.splits)

theorem size_compared_with_fixed_dimensions_witness:
  "smart_loading (Map.empty(ryu_idle_enhanced_png \<mapsto> ImageFile (blank (128, 192))))
     ryu_idle_enhanced_png ryu_idle_png ''idle'' (v0, cr0)
     = (Some (ryu_idle_enhanced_png, True),
        v0\<lparr>loaded_sprites := 1, enhanced_sprites := 1\<rparr>, cr0\<lparr>n_enhanced := 1\<rparr>) \<and>
   Image_open (Map.empty(ryu_idle_enhanced_png \<mapsto> ImageFile (blank (128, 192))))
     ryu_idle_enhanced_png = Some (blank (128, 192)) \<and>
   loaded_sprites (v0\<lparr>loaded_sprites := 1, enhanced_sprites := 1\<rparr>) = loaded_sprites v0 + 1 \<and>
   missing (cr0\<lparr>n_enhanced := 1\<rparr>) = missing cr0 \<and>
   validate_selected (Map.empty(ryu_idle_enhanced_png \<mapsto> ImageFile (blank (128, 192))))
     ''idle'' (Some (ryu_idle_enhanced_png, True))
     = SizeMismatch ''idle'' ''ENHANCED'' 128 192 256 384"
proof -
  let ?fs = "Map.empty(ryu_idle_enhanced_png \<mapsto> ImageFile (blank (128, 192)))"
  have s: "smart_loading ?fs ryu_idle_enhanced_png ryu_idle_png ''idle'' (v0, cr0)
     = (Some (ryu_idle_enhanced_png, True),
        v0\<lparr>loaded_sprites := 1, enhanced_sprites := 1\<rparr>, cr0\<lparr>n_enhanced := 1\<rparr>)"
    by (simp add: smart_loading_def exists_def v0_def cr0_def)
  have i: "Image_open ?fs ryu_idle_enhanced_png = Some (blank (128, 192))"
    by (simp add: Image_open_def)
  from size_compared_with_fixed_dimensions [OF s i] s i show ?thesis
    by (simp add: blank_def)
qed

text \<open>
  C3 as stated fails. With the configuration \<open>small_config\<close> (base size 32 by 48) the base
  sprite of ryu in the idle pose has exactly the configured size; stored as \<open>ryu_idle.png\<close>
  and selected as the base file, it is reported as a size mismatch against 64 by 96.
\<close>

theorem configured_size_reported_as_mismatch:
  "(case SpriteGenerator_init small_config \<bind>
           (\<lambda>g. generate_character_sprite quiet_env g ''ryu'' ''idle'' False) of
      None \<Rightarrow> False
    | Some sprite \<Rightarrow>
        img_size sprite = (width small_config, height small_config) \<and>
        validate_pose (Map.empty(ryu_idle_png \<mapsto> ImageFile sprite))
          [''assets'', ''sprites'', ''street_fighter_6''] ''ryu'' ''idle'' (v0, cr0)
        = (\<lparr>total_sprites = 1, loaded_sprites = 1, enhanced_sprites = 0,
             report = [SizeMismatch ''idle'' ''Original'' 32 48 64 96]\<rparr>,
           \<lparr>n_original = 1, n_enhanced = 0, missing = []\<rparr>))"
  by code_simp

section \<open>The file system under a batch\<close>

lemma fold_missing_dirs:
  "fold (\<lambda>q f. if f q = None then f(q \<mapsto> Directory) else f) qs fs q
     = (if fs q = None \<and> q \<in> set qs then Some Directory else fs q)"
  by (induction qs arbitrary: fs) auto

lemma makedirs_apply:
  "makedirs fs d q = (if fs q = None \<and> q \<in> set (prefixes d) then Some Directory else fs q)"
  by (simp add: makedirs_def fold_missing_dirs)

lemma save_sprite_in_dir:
  "save_sprite env sprite (dir @ [n]) fs =
     (if mkdir_raises env dir then (False, fs)
      else if save_raises env (dir @ [n]) sprite
      then (False, (makedirs fs dir)
              (dir @ [n] := failed_save_leaves env (dir @ [n]) sprite (makedirs fs dir (dir @ [n]))))
      else (True, (makedirs fs dir)(dir @ [n] \<mapsto> ImageFile sprite)))"
  by (simp add: save_sprite_def mkdir_def)

section \<open>One character of a batch\<close>

lemma files_try_generate:
  "files (try_generate env g dir cid pose (map_pose_name pose) e run)
     = fold apply_effect (tier_effects env g dir cid pose e) (files run)"
  by (simp add: try_generate_def tier_effects_def save_sprite_in_dir Let_def split: option.splits)

lemma paths_try_generate:
  "generated_paths (try_generate env g dir cid pose (map_pose_name pose) e run)
     = generated_paths run @
       (if tier_succeeds env g dir cid pose e
        then [dir @ [sprite_file_name cid (map_pose_name pose) e]] else [])"
  by (simp add: try_generate_def tier_succeeds_def save_sprite_in_dir Let_def split: option.splits)

lemma printed_try_generate:
  "printed (try_generate env g dir cid pose (map_pose_name pose) e run)
     = printed run @
       [if tier_succeeds env g dir cid pose e
        then Generated (sprite_file_name cid (map_pose_name pose) e)
        else if e then ErrorEnhanced pose else ErrorOriginal pose]"
  by (simp add: try_generate_def tier_succeeds_def save_sprite_in_dir Let_def split: option.splits)

lemma files_generate_poses:
  "files (generate_poses env g dir cid poses run)
     = fold apply_effect (pose_effects env g dir cid poses) (files run)"
  by (induction poses arbitrary: run)
     (simp_all add: pose_effects_def files_try_generate Let_def)

lemma paths_generate_poses:
  "generated_paths (generate_poses env g dir cid poses run)
     = generated_paths run @ successful_paths env g dir cid poses"
  by (induction poses arbitrary: run)
     (simp_all add: successful_paths_def paths_try_generate Let_def)

lemma printed_generate_poses:
  "printed (generate_poses env g dir cid poses run)
     = printed run @ expected_lines env g dir cid poses"
  by (induction poses arbitrary: run)
     (simp_all add: expected_lines_def printed_try_generate Let_def)

lemma generate_poses_append:
  "generate_poses env g dir cid (ps @ qs) run
     = generate_poses env g dir cid qs (generate_poses env g dir cid ps run)"
  by (induction ps arbitrary: run) (simp_all add: Let_def)

lemma SpriteGenerator_init_total:
  "\<exists>g. SpriteGenerator_init config = Some g \<and> self_config g = config"
  by (simp add: SpriteGenerator_init_def get_palette_def get_archetype_def dict_item_def
        PALETTES_def ARCHETYPES_def)

lemma character_generator_init:
  "SpriteGenerator_init (char_config config c) = Some (character_generator config c)"
  using SpriteGenerator_init_total [of "char_config config c"]
  by (auto simp: character_generator_def)

lemma sprite_file_names_differ:
  "sprite_file_name cid pn False \<noteq> sprite_file_name cid pn True"
  by (simp add: sprite_file_name_def)

text \<open>
  C5. \<open>_map_pose_name\<close> sends \<open>punch\<close>, \<open>kick\<close> and \<open>special\<close> to \<open>attack\<close> and
  leaves every other name as it is, so the pose \<open>punch\<close> of \<open>ryu\<close> is stored as
  \<open>ryu_attack.png\<close> and \<open>ryu_attack_enhanced.png\<close>. Whatever poses were generated before
  it, a pose whose two outputs are rendered and saved appends its two paths to the list and
  the two files hold its sprites afterwards: when an earlier pose was stored under the same
  names, the later one has replaced it.
\<close>

theorem pose_names_alias_to_attack:
  assumes base: "generate_character_sprite env g cid pose False = Some base"
    and enh: "generate_character_sprite env g cid pose True = Some enh"
    and dir: "\<not> mkdir_raises env dir"
    and sb: "\<not> save_raises env (dir @ [sprite_file_name cid (map_pose_name pose) False]) base"
    and se: "\<not> save_raises env (dir @ [sprite_file_name cid (map_pose_name pose) True]) enh"
  shows "map_pose_name ''punch'' = ''attack'' \<and> map_pose_name ''kick'' = ''attack'' \<and>
     map_pose_name ''special'' = ''attack'' \<and>
     (p \<notin> {''punch'', ''kick'', ''special''} \<longrightarrow> map_pose_name p = p) \<and>
     sprite_file_name ''ryu'' (map_pose_name ''punch'') False = ''ryu_attack.png'' \<and>
     sprite_file_name ''ryu'' (map_pose_name ''punch'') True = ''ryu_attack_enhanced.png'' \<and>
     (let before = generate_poses env g dir cid earlier run;
          after = generate_poses env g dir cid (earlier @ [pose]) run
      in generated_paths after = generated_paths before @
           [dir @ [sprite_file_name cid (map_pose_name pose) False],
            dir @ [sprite_file_name cid (map_pose_name pose) True]] \<and>
         files after (dir @ [sprite_file_name cid (map_pose_name pose) False])
           = Some (ImageFile base) \<and>
         files after (dir @ [sprite_file_name cid (map_pose_name pose) True])
           = Some (ImageFile enh))"
proof -
  have names: "map_pose_name ''punch'' = ''attack'' \<and> map_pose_name ''kick'' = ''attack'' \<and>
     map_pose_name ''special'' = ''attack'' \<and>
     (p \<notin> {''punch'', ''kick'', ''special''} \<longrightarrow> map_pose_name p = p)"
    by (simp add: map_pose_name_def pose_mapping_def dict_get_def)
  then have stems: "sprite_file_name ''ryu'' (map_pose_name ''punch'') False = ''ryu_attack.png'' \<and>
     sprite_file_name ''ryu'' (map_pose_name ''punch'') True = ''ryu_attack_enhanced.png''"
    by (simp add: sprite_file_name_def)
  let ?bp = "dir @ [sprite_file_name cid (map_pose_name pose) False]"
  let ?ep = "dir @ [sprite_file_name cid (map_pose_name pose) True]"
  have tb: "tier_succeeds env g dir cid pose False" and te: "tier_succeeds env g dir cid pose True"
    using assms by (simp_all add: tier_succeeds_def)
  have eff: "pose_effects env g dir cid [pose]
      = [MakeDirs dir, Write ?bp base, MakeDirs dir, Write ?ep enh]"
    using assms by (simp add: pose_effects_def tier_effects_def)
  have ne: "?bp \<noteq> ?ep"
    using sprite_file_names_differ by simp
  let ?before = "generate_poses env g dir cid earlier run"
  let ?after = "generate_poses env g dir cid (earlier @ [pose]) run"
  have after: "?after = generate_poses env g dir cid [pose] ?before"
    by (rule generate_poses_append)
  have paths: "generated_paths ?after = generated_paths ?before @ [?bp, ?ep]"
    using tb te by (simp add: after paths_generate_poses successful_paths_def del: generate_poses.simps)
  have fb: "files ?after ?bp = Some (ImageFile base)"
    using ne by (simp add: after files_generate_poses eff makedirs_apply del: generate_poses.simps)
  have fe: "files ?after ?ep = Some (ImageFile enh)"
    by (simp add: after files_generate_poses eff del: generate_poses.simps)
  from names stems paths fb fe show ?thesis
    by (simp add: Let_def)
qed

theorem pose_names_alias_to_attack_witness:
  "\<exists>g punch kick.
     SpriteGenerator_init (char_config default_config ''ryu'') = Some g \<and>
     generate_character_sprite quiet_env g ''ryu'' ''punch'' False = Some punch \<and>
     generate_character_sprite quiet_env g ''ryu'' ''kick'' False = Some kick \<and>
     punch \<noteq> kick \<and>
     generated_paths (generate_poses quiet_env g ryu_sprites ''ryu'' [''punch'', ''kick''] empty_run)
       = [ryu_sprites @ [''ryu_attack.png''], ryu_sprites @ [''ryu_attack_enhanced.png''],
          ryu_sprites @ [''ryu_attack.png''], ryu_sprites @ [''ryu_attack_enhanced.png'']] \<and>
     files (generate_poses quiet_env g ryu_sprites ''ryu'' [''punch'', ''kick''] empty_run)
       (ryu_sprites @ [''ryu_attack.png'']) = Some (ImageFile kick)"
proof -
  define g where "g = character_generator default_config ''ryu''"
  define punch where "punch = the (generate_character_sprite quiet_env g ''ryu'' ''punch'' False)"
  define kick where "kick = the (generate_character_sprite quiet_env g ''ryu'' ''kick'' False)"
  define kick4 where "kick4 = the (generate_character_sprite quiet_env g ''ryu'' ''kick'' True)"
  have init: "SpriteGenerator_init (char_config default_config ''ryu'') = Some g"
    by (simp add: g_def character_generator_init)
  have p: "generate_character_sprite quiet_env g ''ryu'' ''punch'' False = Some punch"
    unfolding punch_def g_def by code_simp
  have k: "generate_character_sprite quiet_env g ''ryu'' ''kick'' False = Some kick"
    unfolding kick_def g_def by code_simp
  have k4: "generate_character_sprite quiet_env g ''ryu'' ''kick'' True = Some kick4"
    unfolding kick4_def g_def by code_simp
  have ne: "punch \<noteq> kick"
    unfolding punch_def kick_def g_def by code_simp
  have quiet: "\<not> mkdir_raises quiet_env ryu_sprites"
    "\<not> save_raises quiet_env (ryu_sprites @ [sprite_file_name ''ryu'' (map_pose_name ''kick'') False]) kick"
    "\<not> save_raises quiet_env (ryu_sprites @ [sprite_file_name ''ryu'' (map_pose_name ''kick'') True]) kick4"
    by (simp_all add: quiet_env_def)
  have before: "generated_paths (generate_poses quiet_env g ryu_sprites ''ryu'' [''punch''] empty_run)
      = [ryu_sprites @ [''ryu_attack.png''], ryu_sprites @ [''ryu_attack_enhanced.png'']]"
    unfolding g_def by code_simp
  have names: "sprite_file_name ''ryu'' (map_pose_name ''kick'') False = ''ryu_attack.png''"
    "sprite_file_name ''ryu'' (map_pose_name ''kick'') True = ''ryu_attack_enhanced.png''"
    by (simp_all add: sprite_file_name_def map_pose_name_def pose_mapping_def dict_get_def)
  from pose_names_alias_to_attack [OF k k4 quiet, of "''idle''" "[''punch'']" empty_run]
  have "generated_paths (generate_poses quiet_env g ryu_sprites ''ryu'' [''punch'', ''kick''] empty_run)
       = [ryu_sprites @ [''ryu_attack.png''], ryu_sprites @ [''ryu_attack_enhanced.png''],
          ryu_sprites @ [''ryu_attack.png''], ryu_sprites @ [''ryu_attack_enhanced.png'']] \<and>
     files (generate_poses quiet_env g ryu_sprites ''ryu'' [''punch'', ''kick''] empty_run)
       (ryu_sprites @ [''ryu_attack.png'']) = Some (ImageFile kick)"
    by (simp add: Let_def before names del: generate_poses.simps)
  with init p k ne show ?thesis by blast
qed

section \<open>The whole batch\<close>

lemma generate_character_sprites_ok:
  assumes "\<not> mkdir_raises env (asset_dir project_root @ [cid, ''sprites''])"
    and "SpriteGenerator_init config = Some g"
  shows "generate_character_sprites env project_root cid poses config fs out
     = Some (generate_poses env g (asset_dir project_root @ [cid, ''sprites'']) cid poses
         \<lparr>generated_paths = [],
          files = makedirs fs (asset_dir project_root @ [cid, ''sprites'']), printed = out\<rparr>)"
  using assms by (simp add: generate_character_sprites_def mkdir_def Let_def)

lemma generate_characters_results:
  assumes "\<forall>c \<in> set characters. \<not> mkdir_raises env (asset_dir project_root @ [c, ''sprites''])"
  shows "generate_characters env project_root characters poses config b = Some
     \<lparr>results = (\<lambda>c. if c \<in> set characters
         then Some (successful_paths env (character_generator config c)
                 (asset_dir project_root @ [c, ''sprites'']) c poses)
         else results b c),
      batch_files = fold apply_effect (batch_effects env project_root config characters poses)
         (batch_files b),
      batch_printed = batch_printed b @
       concat (map (\<lambda>c. Processing c #
         expected_lines env (character_generator config c)
           (asset_dir project_root @ [c, ''sprites'']) c poses) characters)\<rparr>"
  using assms
proof (induction characters arbitrary: b)
  case Nil
  then show ?case by (simp add: batch_effects_def)
next
  case (Cons c cs)
  let ?g = "character_generator config c"
  let ?dir = "asset_dir project_root @ [c, ''sprites'']"
  let ?run = "generate_poses env ?g ?dir c poses
     \<lparr>generated_paths = [], files = makedirs (batch_files b) ?dir,
      printed = batch_printed b @ [Processing c]\<rparr>"
  let ?b1 = "\<lparr>results = (results b)(c \<mapsto> generated_paths ?run),
        batch_files = files ?run, batch_printed = printed ?run\<rparr>"
  from Cons.prems have dir: "\<not> mkdir_raises env ?dir" by simp
  have step: "generate_characters env project_root (c # cs) poses config b
      = generate_characters env project_root cs poses config ?b1"
    by (simp add: generate_character_sprites_ok [OF dir character_generator_init])
  from Cons.prems have "\<forall>c \<in> set cs. \<not> mkdir_raises env (asset_dir project_root @ [c, ''sprites''])"
    by simp
  note ih = Cons.IH [OF this, of ?b1]
  have eff: "batch_effects env project_root config (c # cs) poses
     = MakeDirs ?dir # pose_effects env ?g ?dir c poses @
       batch_effects env project_root config cs poses"
    by (simp add: batch_effects_def)
  show ?case
    unfolding step ih
    by (auto simp: eff paths_generate_poses printed_generate_poses files_generate_poses)
qed

text \<open>
  C8. Provided the sprite directory of every character can be made, a batch returns, and
  its map has an entry for each requested character. The entry lists, in the order of the
  requested poses and base before enhanced, the output path of every pose and tier whose
  rendering and saving raise nothing, and leaves out the others; each output that fails is
  printed as an error line. So the failure of one output removes that one path and nothing
  else. (Making the sprite directory happens outside the \<open>try\<close> blocks; when it raises,
  the exception leaves the batch.)
\<close>

theorem per_item_failure_is_not_fatal:
  assumes "\<forall>c \<in> set characters. \<not> mkdir_raises env (asset_dir project_root @ [c, ''sprites''])"
  shows "let ps = (case poses of None \<Rightarrow> [''idle'', ''walk'', ''attack'', ''jump''] | Some ps \<Rightarrow> ps);
             cfg = (case config of None \<Rightarrow> default_config | Some c \<Rightarrow> c)
         in \<exists>b. generate_character_batch env project_root characters poses config fs = Some b \<and>
              dom (results b) = set characters \<and>
              (\<forall>c \<in> set characters. \<exists>g paths.
                 SpriteGenerator_init (char_config cfg c) = Some g \<and>
                 results b c = Some paths \<and>
                 paths = successful_paths env g (asset_dir project_root @ [c, ''sprites'']) c ps \<and>
                 (\<forall>pose \<in> set ps. \<forall>e.
                    (tier_succeeds env g (asset_dir project_root @ [c, ''sprites'']) c pose e \<longrightarrow>
                       asset_dir project_root @ [c, ''sprites'', sprite_file_name c (map_pose_name pose) e]
                         \<in> set paths) \<and>
                    (\<not> tier_succeeds env g (asset_dir project_root @ [c, ''sprites'']) c pose e \<longrightarrow>
                       (if e then ErrorEnhanced pose else ErrorOriginal pose)
                         \<in> set (batch_printed b))))"
proof -
  define ps where "ps = (case poses of None \<Rightarrow> [''idle'', ''walk'', ''attack'', ''jump''] | Some ps \<Rightarrow> ps)"
  define cfg where "cfg = (case config of None \<Rightarrow> default_config | Some c \<Rightarrow> c)"
  define b where "b = \<lparr>results = (\<lambda>c. if c \<in> set characters
         then Some (successful_paths env (character_generator cfg c)
                 (asset_dir project_root @ [c, ''sprites'']) c ps)
         else None),
      batch_files = fold apply_effect (batch_effects env project_root cfg characters ps) fs,
      batch_printed = 
       concat (map (\<lambda>c. Processing c #
         expected_lines env (character_generator cfg c)
           (asset_dir project_root @ [c, ''sprites'']) c ps) characters)\<rparr>"
  have "generate_characters env project_root characters ps cfg
          \<lparr>results = Map.empty, batch_files = fs, batch_printed = []\<rparr> = Some b"
    using generate_characters_results [OF assms, of ps cfg
        "\<lparr>results = Map.empty, batch_files = fs, batch_printed = []\<rparr>"]
    by (simp add: b_def cong: if_cong)
  then have run: "generate_character_batch env project_root characters poses config fs = Some b"
    by (simp add: generate_character_batch_def ps_def cfg_def)
  have dom: "dom (results b) = set characters"
    by (auto simp: b_def dom_def)
  have each: "\<exists>g paths.
        SpriteGenerator_init (char_config cfg c) = Some g \<and>
        results b c = Some paths \<and>
        paths = successful_paths env g (asset_dir project_root @ [c, ''sprites'']) c ps \<and>
        (\<forall>pose \<in> set ps. \<forall>e.
           (tier_succeeds env g (asset_dir project_root @ [c, ''sprites'']) c pose e \<longrightarrow>
              asset_dir project_root @ [c, ''sprites'', sprite_file_name c (map_pose_name pose) e]
                \<in> set paths) \<and>
           (\<not> tier_succeeds env g (asset_dir project_root @ [c, ''sprites'']) c pose e \<longrightarrow>
              (if e then ErrorEnhanced pose else ErrorOriginal pose) \<in> set (batch_printed b)))"
    if c: "c \<in> set characters" for c
  proof -
    let ?g = "character_generator cfg c"
    let ?dir = "asset_dir project_root @ [c, ''sprites'']"
    have r: "results b c = Some (successful_paths env ?g ?dir c ps)"
      using c by (simp add: b_def)
    have "(tier_succeeds env ?g ?dir c pose e \<longrightarrow>
              asset_dir project_root @ [c, ''sprites'', sprite_file_name c (map_pose_name pose) e]
                \<in> set (successful_paths env ?g ?dir c ps)) \<and>
           (\<not> tier_succeeds env ?g ?dir c pose e \<longrightarrow>
              (if e then ErrorEnhanced pose else ErrorOriginal pose) \<in> set (batch_printed b))"
      if pose: "pose \<in> set ps" for pose e
    proof (intro conjI impI)
      assume "tier_succeeds env ?g ?dir c pose e"
      with pose show "asset_dir project_root @ [c, ''sprites'', sprite_file_name c (map_pose_name pose) e]
                \<in> set (successful_paths env ?g ?dir c ps)"
        by (cases e) (auto simp: successful_paths_def)
    next
      assume "\<not> tier_succeeds env ?g ?dir c pose e"
      with pose have "(if e then ErrorEnhanced pose else ErrorOriginal pose)
           \<in> set (expected_lines env ?g ?dir c ps)"
        by (cases e) (auto simp: expected_lines_def)
      with c show "(if e then ErrorEnhanced pose else ErrorOriginal pose) \<in> set (batch_printed b)"
        by (auto simp: b_def)
    qed
    with r character_generator_init [of cfg c] show ?thesis by blast
  qed
  from run dom each show ?thesis
    unfolding Let_def ps_def [symmetric] cfg_def [symmetric] by blast
qed

theorem per_item_failure_is_not_fatal_witness:
  "\<exists>b. generate_character_batch unwritable_env [] [''ryu'', ''ken''] (Some [''idle'']) None Map.empty
         = Some b \<and>
       dom (results b) = {''ryu'', ''ken''} \<and>
       results b ''ryu'' = Some [ryu_idle_enhanced_png] \<and>
       results b ''ken'' = Some
         [[''assets'', ''sprites'', ''street_fighter_6'', ''ken'', ''sprites'', ''ken_idle.png''],
          [''assets'', ''sprites'', ''street_fighter_6'', ''ken'', ''sprites'', ''ken_idle_enhanced.png'']] \<and>
       ErrorOriginal ''idle'' \<in> set (batch_printed b)"
proof -
  have dirs: "\<forall>c \<in> set [''ryu'', ''ken'']. \<not> mkdir_raises unwritable_env (asset_dir [] @ [c, ''sprites''])"
    by (simp add: unwritable_env_def quiet_env_def)
  from per_item_failure_is_not_fatal [OF dirs, of "Some [''idle'']" None Map.empty]
  obtain b where
    b: "generate_character_batch unwritable_env [] [''ryu'', ''ken''] (Some [''idle'']) None Map.empty
          = Some b"
    and d: "dom (results b) = set [''ryu'', ''ken'']"
    and each: "\<forall>c \<in> set [''ryu'', ''ken'']. \<exists>g paths.
       SpriteGenerator_init (char_config default_config c) = Some g \<and>
       results b c = Some paths \<and>
       paths = successful_paths unwritable_env g (asset_dir [] @ [c, ''sprites'']) c [''idle''] \<and>
       (\<forall>pose \<in> set [''idle'']. \<forall>e.
          (tier_succeeds unwritable_env g (asset_dir [] @ [c, ''sprites'']) c pose e \<longrightarrow>
             asset_dir [] @ [c, ''sprites'', sprite_file_name c (map_pose_name pose) e] \<in> set paths) \<and>
          (\<not> tier_succeeds unwritable_env g (asset_dir [] @ [c, ''sprites'']) c pose e \<longrightarrow>
             (if e then ErrorEnhanced pose else ErrorOriginal pose) \<in> set (batch_printed b)))"
    by (auto simp: Let_def)
  have "''ryu'' \<in> set [''ryu'', ''ken'']" by simp
  from each [THEN bspec, OF this] obtain g paths where
    g: "SpriteGenerator_init (char_config default_config ''ryu'') = Some g"
    and r: "results b ''ryu'' = Some paths"
    and p: "paths = successful_paths unwritable_env g (asset_dir [] @ [''ryu'', ''sprites''])
              ''ryu'' [''idle'']"
    and lines: "\<forall>pose \<in> set [''idle'']. \<forall>e.
          (tier_succeeds unwritable_env g (asset_dir [] @ [''ryu'', ''sprites'']) ''ryu'' pose e \<longrightarrow>
             asset_dir [] @ [''ryu'', ''sprites'', sprite_file_name ''ryu'' (map_pose_name pose) e]
               \<in> set paths) \<and>
          (\<not> tier_succeeds unwritable_env g (asset_dir [] @ [''ryu'', ''sprites'']) ''ryu'' pose e \<longrightarrow>
             (if e then ErrorEnhanced pose else ErrorOriginal pose) \<in> set (batch_printed b))"
    by blast
  from g have gd: "g = character_generator default_config ''ryu''"
    by (simp add: character_generator_def)
  have "''idle'' \<in> set [''idle'']" by simp
  from lines [THEN bspec, OF this, THEN spec, of False]
  have ryu_line: "\<not> tier_succeeds unwritable_env (character_generator default_config ''ryu'')
        (asset_dir [] @ [''ryu'', ''sprites'']) ''ryu'' ''idle'' False \<longrightarrow>
        ErrorOriginal ''idle'' \<in> set (batch_printed b)"
    by (simp add: gd)
  from r p gd have ryu: "results b ''ryu'' = Some (successful_paths unwritable_env
        (character_generator default_config ''ryu'') (asset_dir [] @ [''ryu'', ''sprites''])
        ''ryu'' [''idle''])"
    by simp
  from each have ken: "results b ''ken'' = Some (successful_paths unwritable_env
        (character_generator default_config ''ken'') (asset_dir [] @ [''ken'', ''sprites''])
        ''ken'' [''idle''])"
    by (auto simp: character_generator_def)
  have "successful_paths unwritable_env
        (character_generator default_config ''ryu'') (asset_dir [] @ [''ryu'', ''sprites''])
        ''ryu'' [''idle''] = [ryu_idle_enhanced_png]"
    by code_simp
  moreover have "successful_paths unwritable_env
        (character_generator default_config ''ken'') (asset_dir [] @ [''ken'', ''sprites''])
        ''ken'' [''idle''] =
         [[''assets'', ''sprites'', ''street_fighter_6'', ''ken'', ''sprites'', ''ken_idle.png''],
          [''assets'', ''sprites'', ''street_fighter_6'', ''ken'', ''sprites'', ''ken_idle_enhanced.png'']]"
    by code_simp
  moreover have "\<not> tier_succeeds unwritable_env (character_generator default_config ''ryu'')
        (asset_dir [] @ [''ryu'', ''sprites'']) ''ryu'' ''idle'' False"
    by code_simp
  ultimately show ?thesis
    using b d ryu ken ryu_line by auto
qed

section \<open>Two calls with the same arguments\<close>

text \<open>
  The environments of two calls may differ in every decision to raise (memory, the state
  of the file system); only the float arithmetic is the same function in both. What a
  call returns, when it returns, does not depend on those decisions.
\<close>

lemma apply_op_Some:
  "apply_op env f img = Some a \<longleftrightarrow> \<not> op_raises env f img \<and> a = img\<lparr>img_ops := img_ops img @ [f]\<rparr>"
  by (auto simp: apply_op_def)

lemma rectangle_same:
  "rectangle env1 d xy f l = Some a \<Longrightarrow> rectangle env2 d xy f l = Some b \<Longrightarrow> b = a"
  by (simp add: rectangle_def apply_op_Some)

lemma ellipse_same:
  "ellipse env1 d xy f l = Some a \<Longrightarrow> ellipse env2 d xy f l = Some b \<Longrightarrow> b = a"
  by (simp add: ellipse_def apply_op_Some)

lemma draw_legs_same:
  "draw_legs env1 d pal cx bottom w h pose sc = Some a \<Longrightarrow>
   draw_legs env2 d pal cx bottom w h pose sc = Some b \<Longrightarrow> b = a"
  by (auto simp: draw_legs_def Let_def bind_eq_Some_conv rectangle_def apply_op_Some
        split: if_splits)

lemma draw_torso_same:
  "draw_torso env1 self d pal cx bottom w h pose sc = Some a \<Longrightarrow>
   draw_torso env2 self d pal cx bottom w h pose sc = Some b \<Longrightarrow> b = a"
  by (auto simp: draw_torso_def Let_def bind_eq_Some_conv rectangle_def ellipse_def apply_op_Some
        split: if_splits)

lemma draw_head_same:
  "draw_head env1 d pal cx bottom w h pose sc = Some a \<Longrightarrow>
   draw_head env2 d pal cx bottom w h pose sc = Some b \<Longrightarrow> b = a"
  by (auto simp: draw_head_def Let_def bind_eq_Some_conv ellipse_def apply_op_Some)

lemma draw_arms_same:
  "draw_arms env1 d pal cx cy pose sc tw th = Some a \<Longrightarrow>
   draw_arms env2 d pal cx cy pose sc tw th = Some b \<Longrightarrow> b = a"
  by (auto simp: draw_arms_def Let_def bind_eq_Some_conv rectangle_def ellipse_def apply_op_Some
        split: if_splits)

lemma draw_character_same:
  assumes arith: "int_of_product env2 = int_of_product env1"
    and a: "draw_character env1 self d pal pose w h sc = Some a"
    and b: "draw_character env2 self d pal pose w h sc = Some b"
  shows "b = a"
proof -
  from a obtain hh th lh l1 t1 h1 where
    hs: "int_of_product env1 h (head (proportions (self_archetype self))) = Some hh"
        "int_of_product env1 h (torso (proportions (self_archetype self))) = Some th"
        "int_of_product env1 h (legs (proportions (self_archetype self))) = Some lh"
    and l1: "draw_legs env1 d pal (w div 2 + get_body_lean pose sc) (h - 5 * sc)
               (if body_type (self_archetype self) = ''heavy'' then 8 * sc else 6 * sc) lh pose sc = Some l1"
    and t1: "draw_torso env1 self l1 pal (w div 2 + get_body_lean pose sc) (h - 5 * sc - lh)
               (if body_type (self_archetype self) = ''heavy'' then 12 * sc else 10 * sc) th pose sc = Some t1"
    and h1: "draw_head env1 t1 pal (w div 2 + get_body_lean pose sc) (h - 5 * sc - lh - th)
               (8 * sc) hh pose sc = Some h1"
    and a1: "draw_arms env1 h1 pal (w div 2 + get_body_lean pose sc) (h - 5 * sc - lh - th + hh div 2)
               pose sc (if body_type (self_archetype self) = ''heavy'' then 12 * sc else 10 * sc) th = Some a"
    by (auto simp: draw_character_def Let_def bind_eq_Some_conv)
  from b arith hs obtain l2 t2 h2 where
    l2: "draw_legs env2 d pal (w div 2 + get_body_lean pose sc) (h - 5 * sc)
               (if body_type (self_archetype self) = ''heavy'' then 8 * sc else 6 * sc) lh pose sc = Some l2"
    and t2: "draw_torso env2 self l2 pal (w div 2 + get_body_lean pose sc) (h - 5 * sc - lh)
               (if body_type (self_archetype self) = ''heavy'' then 12 * sc else 10 * sc) th pose sc = Some t2"
    and h2: "draw_head env2 t2 pal (w div 2 + get_body_lean pose sc) (h - 5 * sc - lh - th)
               (8 * sc) hh pose sc = Some h2"
    and a2: "draw_arms env2 h2 pal (w div 2 + get_body_lean pose sc) (h - 5 * sc - lh - th + hh div 2)
               pose sc (if body_type (self_archetype self) = ''heavy'' then 12 * sc else 10 * sc) th = Some b"
    by (auto simp: draw_character_def Let_def bind_eq_Some_conv)
  from draw_legs_same [OF l1 l2] have "l2 = l1" .
  with draw_torso_same [OF t1] t2 have "t2 = t1" by simp
  with draw_head_same [OF h1] h2 have "h2 = h1" by simp
  with draw_arms_same [OF a1] a2 show ?thesis by simp
qed

lemma apply_dithering_same:
  "apply_dithering env1 img = Some a \<Longrightarrow> apply_dithering env2 img = Some b \<Longrightarrow> b = a"
  by (auto simp: apply_dithering_def quantize_def convert_def bind_eq_Some_conv apply_op_Some)

lemma Image_new_same:
  "Image_new env1 mode sz = Some a \<Longrightarrow> Image_new env2 mode sz = Some b \<Longrightarrow> b = a"
  by (auto simp: Image_new_def split: if_splits)

lemma generate_character_sprite_same:
  assumes arith: "int_of_product env2 = int_of_product env1"
    and a: "generate_character_sprite env1 g cid pose e = Some a"
    and b: "generate_character_sprite env2 g cid pose e = Some b"
  shows "b = a"
proof -
  let ?w = "if e then enhanced_width (self_config g) else width (self_config g)"
  let ?h = "if e then enhanced_height (self_config g) else height (self_config g)"
  let ?sc = "if e then 4 else 1 :: int"
  from a obtain c1 cp d1 where
    c1: "Image_new env1 ''RGBA'' (?w, ?h) = Some c1"
    and cp: "get_palette cid = Some cp"
    and d1: "draw_character env1 g c1 (if cp = [] then self_palette g else cp) pose ?w ?h ?sc = Some d1"
    and r1: "(if use_dithering (self_config g) then apply_dithering env1 d1 else Some d1) = Some a"
    by (auto simp: generate_character_sprite_def Let_def bind_eq_Some_conv split: if_splits)
  from b cp obtain c2 d2 where
    c2: "Image_new env2 ''RGBA'' (?w, ?h) = Some c2"
    and d2: "draw_character env2 g c2 (if cp = [] then self_palette g else cp) pose ?w ?h ?sc = Some d2"
    and r2: "(if use_dithering (self_config g) then apply_dithering env2 d2 else Some d2) = Some b"
    by (auto simp: generate_character_sprite_def Let_def bind_eq_Some_conv split: if_splits)
  from Image_new_same [OF c1 c2] have "c2 = c1" .
  with draw_character_same [OF arith d1] d2 have "d2 = d1" by simp
  with r1 r2 show ?thesis
    by (auto split: if_splits dest: apply_dithering_same)
qed

text \<open>
  C9. Two calls of \<open>generate_character_sprite\<close> with the same generator, character id,
  pose and tier, made in environments that may raise at different places, return the same
  image, of the same size, whenever both return. Each run of the batch step for that output
  then stores this image under the same path, whatever the file system held before (the
  second run may start from what the first one left, or from a file an interrupted save
  has spoilt), and appends that path to its list.
\<close>

theorem same_arguments_same_sprite:
  assumes arith: "int_of_product env2 = int_of_product env1"
    and first: "generate_character_sprite env1 g character_id pose e = Some first"
    and second: "generate_character_sprite env2 g character_id pose e = Some second"
  shows "second = first \<and> img_size second = img_size first \<and>
     (let out_path = dir @ [sprite_file_name character_id (map_pose_name pose) e];
          run1 = try_generate env1 g dir character_id pose (map_pose_name pose) e before;
          run2 = try_generate env2 g dir character_id pose (map_pose_name pose) e later
      in (\<not> mkdir_raises env1 dir \<and> \<not> save_raises env1 out_path first \<longrightarrow>
            generated_paths run1 = generated_paths before @ [out_path] \<and>
            files run1 out_path = Some (ImageFile first)) \<and>
         (\<not> mkdir_raises env2 dir \<and> \<not> save_raises env2 out_path second \<longrightarrow>
            generated_paths run2 = generated_paths later @ [out_path] \<and>
            files run2 out_path = Some (ImageFile first)))"
proof -
  from generate_character_sprite_same [OF arith first second]
  have same: "second = first" .
  let ?p = "dir @ [sprite_file_name character_id (map_pose_name pose) e]"
  have 1: "generated_paths (try_generate env1 g dir character_id pose (map_pose_name pose) e before)
             = generated_paths before @ [?p] \<and>
           files (try_generate env1 g dir character_id pose (map_pose_name pose) e before) ?p
             = Some (ImageFile first)"
    if "\<not> mkdir_raises env1 dir \<and> \<not> save_raises env1 ?p first"
    using that first by (simp add: try_generate_def save_sprite_in_dir Let_def)
  have 2: "generated_paths (try_generate env2 g dir character_id pose (map_pose_name pose) e later)
             = generated_paths later @ [?p] \<and>
           files (try_generate env2 g dir character_id pose (map_pose_name pose) e later) ?p
             = Some (ImageFile first)"
    if "\<not> mkdir_raises env2 dir \<and> \<not> save_raises env2 ?p second"
    using that second same by (simp add: try_generate_def save_sprite_in_dir Let_def)
  from same 1 2 show ?thesis
    by (simp add: Let_def)
qed

theorem same_arguments_same_sprite_witness:
  "\<exists>g first second.
     SpriteGenerator_init (char_config default_config ''ryu'') = Some g \<and>
     int_of_product quiet_env = int_of_product unwritable_env \<and>
     generate_character_sprite unwritable_env g ''ryu'' ''idle'' False = Some first \<and>
     generate_character_sprite quiet_env g ''ryu'' ''idle'' False = Some second \<and>
     second = first \<and> img_size second = (64, 96) \<and>
     save_raises unwritable_env ryu_idle_png first \<and>
     files (try_generate unwritable_env g ryu_sprites ''ryu'' ''idle'' ''idle'' False empty_run)
       ryu_idle_png = Some OtherFile \<and>
     \<not> mkdir_raises quiet_env ryu_sprites \<and> \<not> save_raises quiet_env ryu_idle_png second \<and>
     files (try_generate quiet_env g ryu_sprites ''ryu'' ''idle'' ''idle'' False
              (try_generate unwritable_env g ryu_sprites ''ryu'' ''idle'' ''idle'' False empty_run))
       ryu_idle_png = Some (ImageFile first) \<and>
     generated_paths (try_generate quiet_env g ryu_sprites ''ryu'' ''idle'' ''idle'' False
              (try_generate unwritable_env g ryu_sprites ''ryu'' ''idle'' ''idle'' False empty_run))
       = [ryu_idle_png]"
proof -
  define g where "g = character_generator default_config ''ryu''"
  define first where "first = the (generate_character_sprite unwritable_env g ''ryu'' ''idle'' False)"
  define second where "second = the (generate_character_sprite quiet_env g ''ryu'' ''idle'' False)"
  let ?run1 = "try_generate unwritable_env g ryu_sprites ''ryu'' ''idle'' ''idle'' False empty_run"
  have init: "SpriteGenerator_init (char_config default_config ''ryu'') = Some g"
    by (simp add: g_def character_generator_init)
  have arith: "int_of_product quiet_env = int_of_product unwritable_env"
    by (simp add: unwritable_env_def)
  have f: "generate_character_sprite unwritable_env g ''ryu'' ''idle'' False = Some first"
    unfolding first_def g_def by code_simp
  have s: "generate_character_sprite quiet_env g ''ryu'' ''idle'' False = Some second"
    unfolding second_def g_def by code_simp
  have name: "ryu_sprites @ [sprite_file_name ''ryu'' ''idle'' False] = ryu_idle_png"
    and pn: "map_pose_name ''idle'' = ''idle''"
    by (simp_all add: sprite_file_name_def map_pose_name_def pose_mapping_def dict_get_def
          ryu_sprites_def ryu_idle_png_def)
  have raises: "save_raises unwritable_env ryu_idle_png first"
    by (simp add: unwritable_env_def)
  have quiet: "\<not> mkdir_raises quiet_env ryu_sprites" "\<not> save_raises quiet_env ryu_idle_png second"
    by (simp_all add: quiet_env_def)
  have spoilt: "files ?run1 ryu_idle_png = Some OtherFile"
    using f
    by (simp add: try_generate_def save_sprite_def mkdir_def Let_def sprite_file_name_def
          unwritable_env_def quiet_env_def ryu_sprites_def ryu_idle_png_def)
  have paths1: "generated_paths ?run1 = []"
    using f
    by (simp add: try_generate_def save_sprite_def mkdir_def Let_def sprite_file_name_def
          empty_run_def unwritable_env_def quiet_env_def ryu_sprites_def ryu_idle_png_def)
  have sz: "img_size second = (64, 96)"
    unfolding second_def g_def by code_simp
  from same_arguments_same_sprite [OF arith f s, of ryu_sprites empty_run ?run1] quiet
  have "second = first \<and>
     files (try_generate quiet_env g ryu_sprites ''ryu'' ''idle'' ''idle'' False ?run1) ryu_idle_png
       = Some (ImageFile first) \<and>
     generated_paths (try_generate quiet_env g ryu_sprites ''ryu'' ''idle'' ''idle'' False ?run1)
       = [ryu_idle_png]"
    by (simp add: Let_def name pn paths1)
  with init arith f s sz raises spoilt quiet show ?thesis by blast
qed

end
